theory Spec2Isabelle
  imports Complex_Main "HOL-Library.AList"
begin

section \<open>Letterboxd ranking badges: the userscript \<open>Letterboxd Add Rating Icons\<close>\<close>

text \<open>
  The development embeds the ranking userscript (28 film categories, the crown, the
  flag icons and the actor icons): the page-number computation, the badge builders,
  the dataset scan of \<open>getData\<close>, the actor lookup of \<open>getActors\<close>, the
  mutation-observer callbacks of \<open>addCrown\<close> and \<open>addIcon\<close>, and the
  \<open>load\<close> handler.
\<close>

subsection \<open>Numbers and strings of the script\<close>

text \<open>
  \<open>parseInt(x)\<close> on a number \<open>x\<close> converts it to its decimal string and reads the
  integer prefix, that is, it truncates towards zero. (The decimal string is in plain
  notation for \<open>1e-6 \<le> |x| < 1e21\<close>; a rank is an array index plus one, and
  \<open>rank / 100\<close> stays in that range.)
\<close>

definition parseInt_number :: "rat \<Rightarrow> int" where
  "parseInt_number q = (if q < 0 then - \<lfloor>- q\<rfloor> else \<lfloor>q\<rfloor>)"

text \<open>\<open>var page = parseInt(ranking / 100) + 1;\<close>\<close>

definition pageOf :: "nat \<Rightarrow> nat" where
  "pageOf ranking = nat (parseInt_number (of_nat ranking / 100)) + 1"

text \<open>\<open>String(n)\<close> for a non-negative integer: its decimal digits.\<close>

fun string_of_nat :: "nat \<Rightarrow> string" where
  "string_of_nat n =
     (if n < 10 then [char_of (48 + n)]
      else string_of_nat (n div 10) @ [char_of (48 + n mod 10)])"

declare string_of_nat.simps [simp del]

subsection \<open>Ranking datasets\<close>

text \<open>
  A ranking source is the value \<open>res.json()\<close> yields. The numbers of the ranking
  files are integer film identifiers. \<open>jsnum\<close> is the result of \<open>parseInt\<close>:
  an integer or \<open>NaN\<close>.
\<close>

datatype json =
  JNull | JBool bool | JNum int | JStr string | JArr "json list" | JObj "(string \<times> json) list"

datatype jsnum = NaN | Num int

datatype js_error = TypeError | SyntaxError | FetchFailed

text \<open>
  \<open>item.key\<close>: reading a property of \<open>null\<close> throws a TypeError; an object gives
  the value of the key (the last one, had the JSON text repeated it) or \<open>undefined\<close>
  (\<open>None\<close>); the other values have none of the keys the script reads.
\<close>

fun get_prop :: "json \<Rightarrow> string \<Rightarrow> js_error + json option" where
  "get_prop JNull k = Inl TypeError"
| "get_prop (JObj kvs) k = Inr (map_of (rev kvs) k)"
| "get_prop v k = Inr None"

text \<open>\<open>x === id\<close>, with \<open>id\<close> a number: \<open>NaN\<close> equals nothing.\<close>

fun strict_eq_num :: "json option \<Rightarrow> jsnum \<Rightarrow> bool" where
  "strict_eq_num (Some (JNum n)) (Num m) = (n = m)"
| "strict_eq_num v w = False"

text \<open>\<open>item.Date === id || item.id === id\<close>\<close>

definition getData_cond :: "json \<Rightarrow> jsnum \<Rightarrow> js_error + bool" where
  "getData_cond item id' =
     (case get_prop item ''Date'' of
        Inl e \<Rightarrow> Inl e
      | Inr d \<Rightarrow>
          if strict_eq_num d id' then Inr True
          else (case get_prop item ''id'' of
                  Inl e \<Rightarrow> Inl e
                | Inr v \<Rightarrow> Inr (strict_eq_num v id')))"

definition item_matches :: "jsnum \<Rightarrow> json \<Rightarrow> bool" where
  "item_matches id' item = (getData_cond item id' = Inr True)"

subsection \<open>The registry of display parameters\<close>

record icon_size =
  s_height :: string
  s_width :: string
  s_style :: "string option"

record parameters =
  p_list :: string
  p_icon :: string
  p_size :: icon_size

text \<open>The \<open>parameters\<close> object of each branch \<open>type == 2\<close> ... \<open>type == 28\<close>.\<close>

definition parameters_of :: "nat \<Rightarrow> parameters option" where
  "parameters_of type =
     (if type = 2 then Some \<lparr>p_list = ''/el_duderinno/list/every-movie-with-more-than-100000-watched/page/'',
        p_icon = ''https://raw.githubusercontent.com/frozenpandaman/letterboxd-userscripts/master/top-2000-flame.svg'',
        p_size = \<lparr>s_height = ''12'', s_width = ''12'', s_style = None\<rparr>\<rparr>
      else if type = 3 then Some \<lparr>p_list = ''/prof_ratigan/list/top-5000-films-of-all-time-calculated/page/'',
        p_icon = ''https://raw.githubusercontent.com/afchatfield/lb-list-to-json/main/Icons/camera_icon.png'',
        p_size = \<lparr>s_height = ''16'', s_width = ''16'', s_style = None\<rparr>\<rparr>
      else if type = 4 then Some \<lparr>p_list = ''/el_duderinno/list/letterboxds-top-250-highest-rated-french-1/page/'',
        p_icon = ''https://raw.githubusercontent.com/afchatfield/lb-list-to-json/main/Icons/france.png'',
        p_size = \<lparr>s_height = ''16'', s_width = ''16'', s_style = None\<rparr>\<rparr>
      else if type = 5 then Some \<lparr>p_list = ''/el_duderinno/list/letterboxds-top-250-spanish-speaking-films/page/'',
        p_icon = ''https://raw.githubusercontent.com/afchatfield/lb-list-to-json/main/Icons/spain.png'',
        p_size = \<lparr>s_height = ''16'', s_width = ''16'', s_style = None\<rparr>\<rparr>
      else if type = 6 then Some \<lparr>p_list = ''/slinkyman/list/letterboxds-top-250-highest-rated-british/page/'',
        p_icon = ''https://raw.githubusercontent.com/afchatfield/lb-list-to-json/main/Icons/united_kingdom.png'',
        p_size = \<lparr>s_height = ''16'', s_width = ''16'', s_style = None\<rparr>\<rparr>
      else if type = 7 then Some \<lparr>p_list = ''/alexanderh/list/top-100-german-films-of-german-members/page/'',
        p_icon = ''https://raw.githubusercontent.com/afchatfield/lb-list-to-json/main/Icons/germany.png'',
        p_size = \<lparr>s_height = ''16'', s_width = ''16'', s_style = None\<rparr>\<rparr>
      else if type = 8 then Some \<lparr>p_list = ''/el_duderinno/list/letterboxds-top-100-italian-films-as-rated/page/'',
        p_icon = ''https://raw.githubusercontent.com/afchatfield/lb-list-to-json/main/Icons/italy.png'',
        p_size = \<lparr>s_height = ''16'', s_width = ''16'', s_style = None\<rparr>\<rparr>
      else if type = 9 then Some \<lparr>p_list = ''/el_duderinno/list/letterboxds-top-100-scandinavian-films-as/page/'',
        p_icon = ''https://raw.githubusercontent.com/afchatfield/lb-list-to-json/main/Icons/scandinavia.png'',
        p_size = \<lparr>s_height = ''16'', s_width = ''16'', s_style = None\<rparr>\<rparr>
      else if type = 10 then Some \<lparr>p_list = ''/el_duderinno/list/top-250-spanish-speaking-films-as-rated-by/page/'',
        p_icon = ''https://raw.githubusercontent.com/afchatfield/lb-list-to-json/main/Icons/spain_circle.png'',
        p_size = \<lparr>s_height = ''14'', s_width = ''14'', s_style = None\<rparr>\<rparr>
      else if type = 11 then Some \<lparr>p_list = ''/el_duderinno/list/top-250-japanese-films-as-rated-by-japanese/page/'',
        p_icon = ''https://raw.githubusercontent.com/afchatfield/lb-list-to-json/main/Icons/japan.png'',
        p_size = \<lparr>s_height = ''16'', s_width = ''16'', s_style = None\<rparr>\<rparr>
      else if type = 12 then Some \<lparr>p_list = ''/el_duderinno/list/letterboxds-top-100-korean-films-as-rated/page/'',
        p_icon = ''https://raw.githubusercontent.com/afchatfield/lb-list-to-json/main/Icons/south-korea.png'',
        p_size = \<lparr>s_height = ''16'', s_width = ''16'', s_style = None\<rparr>\<rparr>
      else if type = 13 then Some \<lparr>p_list = ''/el_duderinno/list/letterboxds-top-100-african-narrative-films/page/'',
        p_icon = ''https://raw.githubusercontent.com/afchatfield/lb-list-to-json/main/Icons/africa_orange.png'',
        p_size = \<lparr>s_height = ''14'', s_width = ''14'', s_style = None\<rparr>\<rparr>
      else if type = 14 then Some \<lparr>p_list = ''/el_duderinno/list/top-250-romance-films/page/'',
        p_icon = ''https://raw.githubusercontent.com/afchatfield/lb-list-to-json/main/Icons/romance2.png'',
        p_size = \<lparr>s_height = ''14'', s_width = ''14'', s_style = None\<rparr>\<rparr>
      else if type = 15 then Some \<lparr>p_list = ''/el_duderinno/list/top-250-comedy-films/page/'',
        p_icon = ''https://raw.githubusercontent.com/afchatfield/lb-list-to-json/main/Icons/comedy1.png'',
        p_size = \<lparr>s_height = ''14'', s_width = ''14'', s_style = None\<rparr>\<rparr>
      else if type = 16 then Some \<lparr>p_list = ''/el_duderinno/list/top-500-european-films-as-rated-by-european/page/'',
        p_icon = ''https://raw.githubusercontent.com/afchatfield/lb-list-to-json/main/Icons/european-union.png'',
        p_size = \<lparr>s_height = ''16'', s_width = ''16'', s_style = None\<rparr>\<rparr>
      else if type = 17 then Some \<lparr>p_list = ''/el_duderinno/list/letterboxds-top-250-south-american-films/page/'',
        p_icon = ''https://raw.githubusercontent.com/afchatfield/lb-list-to-json/main/Icons/south-america.png'',
        p_size = \<lparr>s_height = ''16'', s_width = ''16'', s_style = None\<rparr>\<rparr>
      else if type = 18 then Some \<lparr>p_list = ''/jack/list/official-top-250-documentary-films/page/'',
        p_icon = ''https://raw.githubusercontent.com/afchatfield/lb-list-to-json/main/Icons/book.png'',
        p_size = \<lparr>s_height = ''14'', s_width = ''16'', s_style = None\<rparr>\<rparr>
      else if type = 19 then Some \<lparr>p_list = ''/el_duderinno/list/top-1000-actors-biggest-film/page/'',
        p_icon = ''https://raw.githubusercontent.com/afchatfield/lb-list-to-json/main/Icons/actor_red.png'',
        p_size = \<lparr>s_height = ''12'', s_width = ''12'', s_style = Some ''margin-top: 1px;''\<rparr>\<rparr>
      else if type = 20 then Some \<lparr>p_list = ''/el_duderinno/list/top-100-chinese-films/page/'',
        p_icon = ''https://raw.githubusercontent.com/afchatfield/lb-list-to-json/main/Icons/china.png'',
        p_size = \<lparr>s_height = ''16'', s_width = ''16'', s_style = None\<rparr>\<rparr>
      else if type = 21 then Some \<lparr>p_list = ''/el_duderinno/list/letterboxds-top-250-indian-films-as-rated/page/'',
        p_icon = ''https://raw.githubusercontent.com/afchatfield/lb-list-to-json/main/Icons/india.png'',
        p_size = \<lparr>s_height = ''16'', s_width = ''16'', s_style = None\<rparr>\<rparr>
      else if type = 22 then Some \<lparr>p_list = ''/el_duderinno/list/top-100-australian-films-as-rated-by-australian/page/'',
        p_icon = ''https://raw.githubusercontent.com/afchatfield/lb-list-to-json/main/Icons/australia.png'',
        p_size = \<lparr>s_height = ''16'', s_width = ''16'', s_style = None\<rparr>\<rparr>
      else if type = 23 then Some \<lparr>p_list = ''/el_duderinno/list/top-100-south-east-asian-films/page/'',
        p_icon = ''https://raw.githubusercontent.com/afchatfield/lb-list-to-json/main/Icons/south_east_asia.png'',
        p_size = \<lparr>s_height = ''16'', s_width = ''16'', s_style = None\<rparr>\<rparr>
      else if type = 24 then Some \<lparr>p_list = ''/el_duderinno/list/top-200-middle-eastern-films/page/'',
        p_icon = ''https://raw.githubusercontent.com/afchatfield/lb-list-to-json/main/Icons/middle_east.png'',
        p_size = \<lparr>s_height = ''16'', s_width = ''16'', s_style = None\<rparr>\<rparr>
      else if type = 25 then Some \<lparr>p_list = ''/el_duderinno/list/letterboxds-top-100-russian-language-films/page/'',
        p_icon = ''https://raw.githubusercontent.com/afchatfield/lb-list-to-json/main/Icons/russia.png'',
        p_size = \<lparr>s_height = ''16'', s_width = ''16'', s_style = None\<rparr>\<rparr>
      else if type = 26 then Some \<lparr>p_list = ''/el_duderinno/list/letterboxds-top-50-new-zealand-films-as-rated/page/'',
        p_icon = ''https://raw.githubusercontent.com/afchatfield/lb-list-to-json/main/Icons/new-zealand.png'',
        p_size = \<lparr>s_height = ''16'', s_width = ''16'', s_style = None\<rparr>\<rparr>
      else if type = 27 then Some \<lparr>p_list = ''/el_duderinno/list/letterboxds-top-250-us-films-as-rated-by/page/'',
        p_icon = ''https://raw.githubusercontent.com/afchatfield/lb-list-to-json/main/Icons/united-states.png'',
        p_size = \<lparr>s_height = ''16'', s_width = ''16'', s_style = None\<rparr>\<rparr>
      else if type = 28 then Some \<lparr>p_list = ''/el_duderinno/list/letterboxds-top-100-canadian-films-as-rated/page/'',
        p_icon = ''https://raw.githubusercontent.com/afchatfield/lb-list-to-json/main/Icons/canada.png'',
        p_size = \<lparr>s_height = ''16'', s_width = ''16'', s_style = None\<rparr>\<rparr>
      else None)"

text \<open>The calls the scan makes: \<open>addCrown(i+1)\<close> and \<open>addIcon(i+1, parameters)\<close>.\<close>

datatype call = AddCrown nat | AddIcon nat parameters

fun call_rank :: "call \<Rightarrow> nat" where
  "call_rank (AddCrown ranking) = ranking"
| "call_rank (AddIcon ranking p) = ranking"

text \<open>The chain \<open>if (type == 1) ... else if (type == 28) ...\<close> at index \<open>i\<close>.\<close>

definition getData_branch :: "nat \<Rightarrow> nat \<Rightarrow> call list" where
  "getData_branch type i =
     (if type = 1 then [AddCrown (i + 1)]
      else (case parameters_of type of
              Some p \<Rightarrow> [AddIcon (i + 1) p]
            | None \<Rightarrow> []))"

text \<open>
  The callback given to \<open>out.find\<close>. It has no \<open>return\<close>: its value is
  \<open>undefined\<close>, which is falsy. The state is the list of calls made so far.
\<close>

definition getData_callback ::
  "nat \<Rightarrow> jsnum \<Rightarrow> json \<Rightarrow> nat \<Rightarrow> call list \<Rightarrow> call list \<times> (js_error + bool)" where
  "getData_callback type id' item i cs =
     (case getData_cond item id' of
        Inl e \<Rightarrow> (cs, Inl e)
      | Inr hit \<Rightarrow> (if hit then cs @ getData_branch type i else cs, Inr False))"

text \<open>
  \<open>Array.prototype.find\<close>: the callback is called on each element with its index,
  in order, until it returns a truthy value; the result is that element, or
  \<open>undefined\<close>. An exception of the callback ends the scan.
\<close>

fun find_js ::
  "(json \<Rightarrow> nat \<Rightarrow> 's \<Rightarrow> 's \<times> (js_error + bool)) \<Rightarrow> json list \<Rightarrow> nat \<Rightarrow> 's
     \<Rightarrow> 's \<times> (js_error + json option)" where
  "find_js cb [] i s = (s, Inr None)"
| "find_js cb (x # xs) i s =
     (case cb x i s of
        (s', Inl e) \<Rightarrow> (s', Inl e)
      | (s', Inr b) \<Rightarrow> if b then (s', Inr (Some x)) else find_js cb xs (Suc i) s')"

text \<open>
  What \<open>fetch(json_link).then(res => res.json())\<close> settles to: the fetch rejects,
  the body is not JSON, or the body parses to a value.
\<close>

datatype fetch_result = FetchRejected | BodyNotJson | Body json

text \<open>
  The promise chain of \<open>getData\<close>: the calls it made, and the reason of the rejection
  when its last promise rejects. No rejection handler is attached to that promise.
  \<open>out.find\<close> on a value that is not an array throws a TypeError.
\<close>

record outcome =
  calls :: "call list"
  rejected :: "js_error option"

definition getData :: "nat \<Rightarrow> jsnum \<Rightarrow> fetch_result \<Rightarrow> outcome" where
  "getData type id' r =
     (case r of
        FetchRejected \<Rightarrow> \<lparr>calls = [], rejected = Some FetchFailed\<rparr>
      | BodyNotJson \<Rightarrow> \<lparr>calls = [], rejected = Some SyntaxError\<rparr>
      | Body out \<Rightarrow>
          (case out of
             JArr xs \<Rightarrow>
               (case find_js (getData_callback type id') xs 0 [] of
                  (cs, Inl e) \<Rightarrow> \<lparr>calls = cs, rejected = Some e\<rparr>
                | (cs, Inr found) \<Rightarrow> \<lparr>calls = cs, rejected = None\<rparr>)
           | _ \<Rightarrow> \<lparr>calls = [], rejected = Some TypeError\<rparr>))"

text \<open>The datasets of the scenarios.\<close>

definition scenario_dataset :: "json list" where
  "scenario_dataset = [JObj [(''id'', JNum 10)], JObj [(''id'', JNum 20)], JObj [(''id'', JNum 30)]]"

definition repeated_dataset :: "json list" where
  "repeated_dataset = [JObj [(''id'', JNum 20)], JObj [(''id'', JNum 10)], JObj [(''Date'', JNum 20)]]"

subsection \<open>Elements and the badge builders\<close>

text \<open>
  An element has a tag, its attributes in the order they were set (\<open>className\<close> is
  the attribute \<open>class\<close>, \<open>img.src\<close> the attribute \<open>src\<close>), the properties
  assigned through \<open>.style\<close> in the order of the assignments, and its children.
\<close>

datatype dom =
  Element (el_tag: string) (el_attrs: "(string \<times> string) list")
    (el_style: "(string \<times> string) list") (el_children: "dom list")
| TextNode string

definition createElement :: "string \<Rightarrow> dom" where
  "createElement t = Element t [] [] []"

definition createTextNode :: "string \<Rightarrow> dom" where
  "createTextNode s = TextNode s"

fun setAttribute :: "string \<Rightarrow> string \<Rightarrow> dom \<Rightarrow> dom" where
  "setAttribute k v (Element t as st cs) = Element t (AList.update k v as) st cs"
| "setAttribute k v (TextNode s) = TextNode s"

fun set_style :: "string \<Rightarrow> string \<Rightarrow> dom \<Rightarrow> dom" where
  "set_style k v (Element t as st cs) = Element t as (AList.update k v st) cs"
| "set_style k v (TextNode s) = TextNode s"

text \<open>\<open>parent.appendChild(child)\<close> for a child built apart from the document.\<close>

fun appendChild :: "dom \<Rightarrow> dom \<Rightarrow> dom" where
  "appendChild (Element t as st cs) c = Element t as st (cs @ [c])"
| "appendChild (TextNode s) c = TextNode s"

text \<open>\<open>Object.entries(parameters.size)\<close>: the keys of the literal, in its order.\<close>

definition size_entries :: "icon_size \<Rightarrow> (string \<times> string) list" where
  "size_entries s =
     [(''height'', s_height s), (''width'', s_width s)]
     @ (case s_style s of None \<Rightarrow> [] | Some v \<Rightarrow> [(''style'', v)])"

text \<open>The element \<open>addIcon\<close> builds before it starts to observe (\<open>div_mov\<close>).\<close>

definition addIcon_element :: "nat \<Rightarrow> parameters \<Rightarrow> dom" where
  "addIcon_element ranking p =
     (let div_mov = setAttribute ''class'' ''production-statistic'' (createElement ''div'');
          a_mov = createElement ''a'';
          page = pageOf ranking;
          a_mov = setAttribute ''href'' (p_list p @ string_of_nat page) a_mov;
          a_mov = set_style ''fontSize'' ''.92307692rem'' a_mov;
          movie = createElement ''img'';
          movie = setAttribute ''src'' (p_icon p) movie;
          movie = fold (\<lambda>(key, value). setAttribute key value) (size_entries (p_size p)) movie;
          movie = set_style ''float'' ''left'' movie;
          movie = set_style ''marginLeft'' ''-1px'' movie;
          movie = set_style ''marginRight'' ''3px'' movie;
          a_mov = appendChild a_mov movie;
          a_mov = appendChild a_mov (createTextNode (string_of_nat ranking));
          div_mov = appendChild div_mov a_mov
      in div_mov)"

text \<open>\<open>addActorIcon\<close>: the anchor it builds, and the cast anchor after the call.\<close>

definition addActorIcon_element :: "nat \<Rightarrow> parameters \<Rightarrow> dom" where
  "addActorIcon_element ranking p =
     (let a_mov = createElement ''a'';
          page = pageOf ranking;
          a_mov = setAttribute ''href'' (p_list p @ string_of_nat page) a_mov;
          a_mov = set_style ''fontSize'' ''.92307692rem'' a_mov;
          movie = createElement ''img'';
          movie = setAttribute ''src'' (p_icon p) movie;
          movie = fold (\<lambda>(key, value). setAttribute key value) (size_entries (p_size p)) movie;
          movie = set_style ''display'' ''inline'' movie;
          movie = set_style ''marginBottom'' ''-1px'' movie;
          movie = set_style ''marginLeft'' ''3px'' movie;
          movie = set_style ''marginRight'' ''3px'' movie;
          a_mov = appendChild a_mov movie;
          a_mov = appendChild a_mov (createTextNode (string_of_nat ranking))
      in a_mov)"

definition addActorIcon :: "dom \<Rightarrow> nat \<Rightarrow> parameters \<Rightarrow> dom" where
  "addActorIcon element ranking p = appendChild element (addActorIcon_element ranking p)"

text \<open>The numero sign of the crown's labels, in UTF-8.\<close>

definition numero :: string where
  "numero = [char_of (0xE2 :: nat), char_of (0x84 :: nat), char_of (0x96 :: nat)]"

definition createTop250Element :: "nat \<Rightarrow> dom" where
  "createTop250Element ranking =
     (let div' = setAttribute ''class'' ''production-statistic -top250'' (createElement ''div'');
          div' = setAttribute ''aria-label''
                  (numero @ '' '' @ string_of_nat ranking @ '' in the Letterboxd Top 2000'') div';
          a = setAttribute ''class'' ''tooltip'' (createElement ''a'');
          page = pageOf ranking;
          a = setAttribute ''href''
                (''/el_duderinno/list/letterboxds-top-2000-narrative-feature-films-1/page/''
                 @ string_of_nat page) a;
          a = setAttribute ''data-html'' ''true'' a;
          a = setAttribute ''data-original-title''
                (numero @ '' '' @ string_of_nat ranking @ '' in the Letterboxd Top 250'') a;
          svg = setAttribute ''xmlns'' ''http://www.w3.org/2000/svg'' (createElement ''svg'');
          svg = setAttribute ''role'' ''presentation'' svg;
          svg = setAttribute ''class'' ''glyph'' svg;
          svg = setAttribute ''width'' ''14'' svg;
          svg = setAttribute ''height'' ''11'' svg;
          svg = setAttribute ''viewBox'' ''0 0 14 11'' svg;
          path = setAttribute ''fill'' ''#000'' (createElement ''path'');
          path = setAttribute ''d'' ''M0 2.169c0-.252.126-.48.32-.576.194-.097.417-.043.566.135l2.546 3.056c.05.062.12.095.192.091a.248.248 0 0 0 .188-.108l2.535-3.55A.488.488 0 0 1 6.74 1c.151 0 .295.08.394.218l2.547 3.565c.045.064.109.103.178.108a.236.236 0 0 0 .189-.077l3.091-3.248a.452.452 0 0 1 .556-.098c.185.102.304.323.304.567V10H0V2.169Z'' path;
          svg = appendChild svg path;
          a = appendChild a svg;
          span = setAttribute ''class'' ''label'' (createElement ''span'');
          span = appendChild span (createTextNode (string_of_nat ranking));
          a = appendChild a span;
          div' = appendChild div' a
      in div')"

text \<open>A concrete \<open>parameters\<close> object: that of the branch \<open>type == 2\<close>.\<close>

definition flame_parameters :: parameters where
  "flame_parameters =
     \<lparr>p_list = ''/el_duderinno/list/every-movie-with-more-than-100000-watched/page/'',
      p_icon = ''https://raw.githubusercontent.com/frozenpandaman/letterboxd-userscripts/master/top-2000-flame.svg'',
      p_size = \<lparr>s_height = ''12'', s_width = ''12'', s_style = None\<rparr>\<rparr>"

subsection \<open>The document and the mutation observers\<close>

text \<open>
  A node of the document is an element with an identity: nodes of the host page and
  nodes the script created. Of the document, the script reads and writes the first
  element of class \<open>production-statistic-list\<close>: its children (\<open>None\<close> when
  the page has no such element) and its \<open>style.flexWrap\<close>; and it counts the
  elements of class \<open>-top250\<close>, inside that list and elsewhere.
\<close>

datatype node_id = HostNode nat | ScriptNode nat

type_synonym node = "node_id \<times> dom"

record document =
  stat_list :: "node list option"
  flexWrap :: "string option"
  top250_elsewhere :: nat

fun count_tag :: "string \<Rightarrow> dom \<Rightarrow> nat" where
  "count_tag t (TextNode s) = 0"
| "count_tag t (Element t' as st cs) =
     (if t' = t then 1 else 0) + sum_list (map (count_tag t) cs)"

text \<open>The tokens of a \<open>class\<close> attribute, separated by spaces.\<close>

fun split_spaces :: "string \<Rightarrow> string list" where
  "split_spaces [] = [[]]"
| "split_spaces (c # cs) =
     (if c = CHR '' '' then [] # split_spaces cs
      else (case split_spaces cs of [] \<Rightarrow> [[c]] | w # ws \<Rightarrow> (c # w) # ws))"

definition class_list :: "(string \<times> string) list \<Rightarrow> string list" where
  "class_list as =
     (case map_of as ''class'' of
        None \<Rightarrow> []
      | Some v \<Rightarrow> filter (\<lambda>w. w \<noteq> []) (split_spaces v))"

fun count_class :: "string \<Rightarrow> dom \<Rightarrow> nat" where
  "count_class c (TextNode s) = 0"
| "count_class c (Element t as st cs) =
     (if c \<in> set (class_list as) then 1 else 0) + sum_list (map (count_class c) cs)"

text \<open>\<open>icon_div.getElementsByTagName("div").length\<close>\<close>

definition div_count :: "node list \<Rightarrow> nat" where
  "div_count kids = sum_list (map (\<lambda>n. count_tag ''div'' (snd n)) kids)"

text \<open>\<open>document.getElementsByClassName("-top250").length\<close>\<close>

definition top250_count :: "document \<Rightarrow> nat" where
  "top250_count d =
     top250_elsewhere d
     + (case stat_list d of
          None \<Rightarrow> 0
        | Some kids \<Rightarrow> sum_list (map (\<lambda>n. count_class ''-top250'' (snd n)) kids))"

text \<open>
  \<open>icon_div.appendChild(node)\<close>: a node that is already a child is moved to the
  end, it is never there twice.
\<close>

definition appendChild_node :: "node \<Rightarrow> node list \<Rightarrow> node list" where
  "appendChild_node n kids = filter (\<lambda>m. fst m \<noteq> fst n) kids @ [n]"

text \<open>
  A mutation record is given by the node types of its \<open>addedNodes\<close>. The state of
  an observer's callback is the document and whether the observer still observes
  (\<open>this.disconnect()\<close> clears it). A \<open>for ... of\<close> loop runs its body on each
  element in order; an exception ends it.
\<close>

datatype node_type = ELEMENT_NODE | OTHER_NODE

type_synonym mutation = "node_type list"

type_synonym obs_state = "document \<times> bool"

fun for_of :: "('a \<Rightarrow> 's \<Rightarrow> 's \<times> js_error option) \<Rightarrow> 'a list \<Rightarrow> 's \<Rightarrow> 's \<times> js_error option" where
  "for_of body [] s = (s, None)"
| "for_of body (x # xs) s =
     (case body x s of
        (s', Some e) \<Rightarrow> (s', Some e)
      | (s', None) \<Rightarrow> for_of body xs s')"

text \<open>The body of the inner loop of \<open>addCrown\<close>'s observer, for one added node.\<close>

definition addCrown_body :: "node \<Rightarrow> node_type \<Rightarrow> obs_state \<Rightarrow> obs_state \<times> js_error option" where
  "addCrown_body div_crown node s =
     (if node \<noteq> ELEMENT_NODE then (s, None)
      else (case stat_list (fst s) of
              None \<Rightarrow> (s, Some TypeError)
            | Some kids \<Rightarrow>
                if div_count kids > 1 then
                  (if top250_count (fst s) = 0
                   then (((fst s)\<lparr>stat_list := Some (appendChild_node div_crown kids)\<rparr>, False), None)
                   else ((fst s, False), None))
                else (s, None)))"

text \<open>The body of the inner loop of \<open>addIcon\<close>'s observer.\<close>

definition addIcon_body :: "node \<Rightarrow> node_type \<Rightarrow> obs_state \<Rightarrow> obs_state \<times> js_error option" where
  "addIcon_body div_mov node s =
     (if node \<noteq> ELEMENT_NODE then (s, None)
      else (case stat_list (fst s) of
              None \<Rightarrow> (s, Some TypeError)
            | Some kids \<Rightarrow>
                (let d = (fst s)\<lparr>flexWrap := Some ''wrap''\<rparr> in
                 if div_count kids > 1
                 then ((d\<lparr>stat_list := Some (appendChild_node div_mov kids)\<rparr>, False), None)
                 else ((d, snd s), None))))"

datatype badge_kind = Crown | Icon

text \<open>The callback: \<open>for (const {addedNodes} of mutations) for (const node of addedNodes)\<close>.\<close>

definition observer_callback ::
  "badge_kind \<Rightarrow> node \<Rightarrow> mutation list \<Rightarrow> obs_state \<Rightarrow> obs_state \<times> js_error option" where
  "observer_callback kind badge mutations s =
     for_of (\<lambda>addedNodes.
               for_of (case kind of Crown \<Rightarrow> addCrown_body badge | Icon \<Rightarrow> addIcon_body badge)
                 addedNodes)
       mutations s"

text \<open>
  The browser calls the callback of an observer with the records queued for it,
  when there are some and the observer has not been disconnected.
\<close>

definition notify ::
  "(mutation list \<Rightarrow> obs_state \<Rightarrow> obs_state \<times> js_error option) \<Rightarrow> mutation list \<Rightarrow> obs_state
     \<Rightarrow> obs_state \<times> js_error option" where
  "notify cb mutations s = (if snd s \<and> mutations \<noteq> [] then cb mutations s else (s, None))"

text \<open>
  The life of one observer: batches of records delivered to it, and changes of the
  document by the host page or by other scripts in between. \<open>insertions\<close> counts
  the batches at which the badge became a child of the list.
\<close>

datatype event = Records "mutation list" | Change document

definition is_child :: "node \<Rightarrow> document \<Rightarrow> bool" where
  "is_child n d = (case stat_list d of None \<Rightarrow> False | Some kids \<Rightarrow> fst n \<in> set (map fst kids))"

fun run_observer ::
  "(mutation list \<Rightarrow> obs_state \<Rightarrow> obs_state \<times> js_error option) \<Rightarrow> event list \<Rightarrow> obs_state
     \<Rightarrow> obs_state" where
  "run_observer cb [] s = s"
| "run_observer cb (Change d # evs) s = run_observer cb evs (d, snd s)"
| "run_observer cb (Records ms # evs) s = run_observer cb evs (fst (notify cb ms s))"

fun insertions ::
  "(mutation list \<Rightarrow> obs_state \<Rightarrow> obs_state \<times> js_error option) \<Rightarrow> node \<Rightarrow> event list
     \<Rightarrow> obs_state \<Rightarrow> nat" where
  "insertions cb n [] s = 0"
| "insertions cb n (Change d # evs) s = insertions cb n evs (d, snd s)"
| "insertions cb n (Records ms # evs) s =
     (let s' = fst (notify cb ms s)
      in (if is_child n (fst s') \<and> \<not> is_child n (fst s) then 1 else 0)
         + insertions cb n evs s')"

subsection \<open>The page: the document and the observers the script registered\<close>

record observer =
  o_kind :: badge_kind
  o_node :: node
  o_connected :: bool

record page =
  p_doc :: document
  p_observers :: "observer list"
  p_next :: nat
  p_reported :: "js_error list"

text \<open>
  \<open>addCrown\<close> and \<open>addIcon\<close> build their element, a new node, and start an
  observer on the document.
\<close>

definition observe :: "badge_kind \<Rightarrow> dom \<Rightarrow> page \<Rightarrow> page" where
  "observe kind e pg =
     pg\<lparr>p_observers :=
          p_observers pg @ [\<lparr>o_kind = kind, o_node = (ScriptNode (p_next pg), e), o_connected = True\<rparr>],
        p_next := p_next pg + 1\<rparr>"

definition addCrown :: "nat \<Rightarrow> page \<Rightarrow> page" where
  "addCrown ranking pg = observe Crown (createTop250Element ranking) pg"

definition addIcon :: "nat \<Rightarrow> parameters \<Rightarrow> page \<Rightarrow> page" where
  "addIcon ranking p pg = observe Icon (addIcon_element ranking p) pg"

fun apply_call :: "call \<Rightarrow> page \<Rightarrow> page" where
  "apply_call (AddCrown ranking) pg = addCrown ranking pg"
| "apply_call (AddIcon ranking p) pg = addIcon ranking p pg"

text \<open>
  A batch of records reaches every observer, in the order of their registration; an
  exception of a callback is reported and the next observer is served.
\<close>

fun deliver_all ::
  "mutation list \<Rightarrow> observer list \<Rightarrow> document \<Rightarrow> observer list \<times> document \<times> js_error list" where
  "deliver_all ms [] d = ([], d, [])"
| "deliver_all ms (ob # obs) d =
     (case notify (observer_callback (o_kind ob) (o_node ob)) ms (d, o_connected ob) of
        ((d', c'), e) \<Rightarrow>
          (case deliver_all ms obs d' of
             (obs', d'', es) \<Rightarrow>
               (ob\<lparr>o_connected := c'\<rparr> # obs', d'',
                (case e of None \<Rightarrow> [] | Some x \<Rightarrow> [x]) @ es)))"

definition deliver :: "mutation list \<Rightarrow> page \<Rightarrow> page" where
  "deliver ms pg =
     (case deliver_all ms (p_observers pg) (p_doc pg) of
        (obs', d', es) \<Rightarrow> pg\<lparr>p_doc := d', p_observers := obs', p_reported := p_reported pg @ es\<rparr>)"

text \<open>One category's run of the annotator on a page: the calls of its scan, applied.\<close>

definition annotate_category :: "nat \<Rightarrow> jsnum \<Rightarrow> fetch_result \<Rightarrow> page \<Rightarrow> page" where
  "annotate_category type id' r pg = fold apply_call (calls (getData type id' r)) pg"

text \<open>The badges of the list whose element is \<open>e\<close>.\<close>

definition badges_like :: "dom \<Rightarrow> page \<Rightarrow> node list" where
  "badges_like e pg =
     (case stat_list (p_doc pg) of None \<Rightarrow> [] | Some kids \<Rightarrow> filter (\<lambda>n. snd n = e) kids)"

text \<open>A host page whose statistics list holds two \<open>div\<close>s, before any annotation.\<close>

definition host_div :: dom where
  "host_div = Element ''div'' [(''class'', ''production-statistic'')] [] [TextNode ''1.2M'']"

definition ready_page :: page where
  "ready_page =
     \<lparr>p_doc = \<lparr>stat_list = Some [(HostNode 0, host_div), (HostNode 1, host_div)],
               flexWrap = None, top250_elsewhere = 0\<rparr>,
      p_observers = [], p_next = 0, p_reported = []\<rparr>"

text \<open>
  Relations and invariants of the observer loops: a callback that leaves the observer
  observing has left the children of the list as they were; node identities stay
  distinct; a mounted badge stays the last child.
\<close>

definition stays :: "obs_state \<Rightarrow> obs_state \<Rightarrow> bool" where
  "stays s s' = (snd s' \<longrightarrow> snd s \<and> stat_list (fst s') = stat_list (fst s))"

definition distinct_kids :: "obs_state \<Rightarrow> bool" where
  "distinct_kids s = (case stat_list (fst s) of None \<Rightarrow> True | Some kids \<Rightarrow> distinct (map fst kids))"

text \<open>The observers, documents and traces of the scenarios.\<close>

definition icon_badge :: node where
  "icon_badge = (ScriptNode 0, addIcon_element 2 flame_parameters)"

definition bare_document :: document where
  "bare_document = \<lparr>stat_list = Some [(HostNode 0, host_div), (HostNode 1, host_div)],
               flexWrap = None, top250_elsewhere = 0\<rparr>"

definition mount_trace :: "event list" where
  "mount_trace =
     [Records [[OTHER_NODE]], Records [[ELEMENT_NODE, ELEMENT_NODE], [ELEMENT_NODE]],
      Change bare_document, Records [[ELEMENT_NODE]]]"

definition mount_batch :: "mutation list" where
  "mount_batch = [[OTHER_NODE, ELEMENT_NODE, ELEMENT_NODE], [ELEMENT_NODE]]"

definition mounted :: "node \<Rightarrow> node list \<Rightarrow> obs_state \<Rightarrow> bool" where
  "mounted n kids s = (stat_list (fst s) = Some (kids @ [n]))"

definition annotated_once :: "nat \<Rightarrow> page" where
  "annotated_once type =
     deliver [[ELEMENT_NODE]]
       (annotate_category type (Num 20) (Body (JArr scenario_dataset)) ready_page)"

definition annotated_twice :: "nat \<Rightarrow> page" where
  "annotated_twice type =
     deliver [[ELEMENT_NODE]]
       (annotate_category type (Num 20) (Body (JArr scenario_dataset)) (annotated_once type))"

definition crown_node :: node where
  "crown_node = (ScriptNode 0, createTop250Element 2)"

definition second_icon :: node where
  "second_icon = (ScriptNode 1, addIcon_element 2 flame_parameters)"

subsection \<open>The load handler\<close>

text \<open>
  \<open>parseInt(string)\<close>: leading white space is skipped, a sign is read, a prefix
  \<open>0x\<close> selects radix 16, and the longest prefix of digits is the value; with no
  digit the result is \<open>NaN\<close>. (White space is the ASCII white space; film
  identifiers are far below \<open>2^53\<close>, where numbers stay exact.)
\<close>

definition is_space :: "char \<Rightarrow> bool" where
  "is_space c = (c \<in> set [CHR '' '', CHR 0x09, CHR 0x0A, CHR 0x0B, CHR 0x0C, CHR 0x0D])"

definition digit_of :: "char \<Rightarrow> nat option" where
  "digit_of c =
     (let n = (of_char c :: nat) in
      if 48 \<le> n \<and> n \<le> 57 then Some (n - 48)
      else if 97 \<le> n \<and> n \<le> 122 then Some (n - 87)
      else if 65 \<le> n \<and> n \<le> 90 then Some (n - 55)
      else None)"

definition parseInt :: "string \<Rightarrow> jsnum" where
  "parseInt str =
     (let s = dropWhile is_space str;
          (neg, s) = (case s of
                        [] \<Rightarrow> (False, s)
                      | c # r \<Rightarrow> if c = CHR ''-'' then (True, r)
                                else if c = CHR ''+'' then (False, r) else (False, s));
          (radix, s) = (case s of
                          a # b # r \<Rightarrow>
                            if a = CHR ''0'' \<and> (b = CHR ''x'' \<or> b = CHR ''X'') then (16, r)
                            else (10, s)
                        | _ \<Rightarrow> (10 :: nat, s));
          ds = takeWhile (\<lambda>c. case digit_of c of None \<Rightarrow> False | Some d \<Rightarrow> d < radix) s;
          n = foldl (\<lambda>a c. case digit_of c of None \<Rightarrow> a | Some d \<Rightarrow> a * radix + d) 0 ds
      in if ds = [] then NaN else Num (if neg then - int n else int n))"

text \<open>
  What the handler finds on the page: no element of class \<open>film-poster\<close>; one
  whose \<open>parentElement\<close> is \<open>null\<close>; or one whose parent has the attribute
  \<open>data-film-id\<close> or lacks it (\<open>getAttribute\<close> then returns \<open>null\<close>, and
  \<open>parseInt(null)\<close> reads the string \<open>null\<close>). Reading a property of
  \<open>undefined\<close> or \<open>null\<close> throws a TypeError.
\<close>

datatype poster = NoPoster | OrphanPoster | PosterIn "string option"

fun read_id :: "poster \<Rightarrow> js_error + jsnum" where
  "read_id NoPoster = Inl TypeError"
| "read_id OrphanPoster = Inl TypeError"
| "read_id (PosterIn None) = Inr (parseInt ''null'')"
| "read_id (PosterIn (Some v)) = Inr (parseInt v)"

text \<open>The fetches the handler starts, in its order.\<close>

datatype request = GetData nat jsnum string | GetActors string

definition requests :: "jsnum \<Rightarrow> request list" where
  "requests id' =
     [GetData 1 id' ''https://raw.githubusercontent.com/afchatfield/lb-list-to-json/main/Ratings/top_2000_highest_rated.json'',
      GetData 2 id' ''https://raw.githubusercontent.com/afchatfield/lb-list-to-json/main/Ratings/movies_with_100000_or_more_watched.json'',
      GetData 3 id' ''https://raw.githubusercontent.com/afchatfield/lb-list-to-json/main/Ratings/top_5000_all_time.json'',
      GetData 4 id' ''https://raw.githubusercontent.com/afchatfield/lb-list-to-json/main/Ratings/top_250_french_films_by_french_users.json'',
      GetData 5 id' ''https://raw.githubusercontent.com/afchatfield/lb-list-to-json/main/Ratings/top_250_spanish_films_by_spanish_users.json'',
      GetData 6 id' ''https://raw.githubusercontent.com/afchatfield/lb-list-to-json/main/Ratings/top_250_british_films_by_british_users.json'',
      GetData 7 id' ''https://raw.githubusercontent.com/afchatfield/lb-list-to-json/main/Ratings/top_100_german_films_by_german_users.json'',
      GetData 8 id' ''https://raw.githubusercontent.com/afchatfield/lb-list-to-json/main/Ratings/top_100_italian_films_by_italian_users.json'',
      GetData 9 id' ''https://raw.githubusercontent.com/afchatfield/lb-list-to-json/main/Ratings/top_100_scandinavian_films_by_scandinavian_users.json'',
      GetData 10 id' ''https://raw.githubusercontent.com/afchatfield/lb-list-to-json/main/Ratings/top_250_spanish_speaking_films_by_spanish_speaking_users.json'',
      GetData 11 id' ''https://raw.githubusercontent.com/afchatfield/lb-list-to-json/main/Ratings/top_250_japanese_films.json'',
      GetData 12 id' ''https://raw.githubusercontent.com/afchatfield/lb-list-to-json/main/Ratings/top_100_korean_films.json'',
      GetData 13 id' ''https://raw.githubusercontent.com/afchatfield/lb-list-to-json/main/Ratings/top_100_african_films.json'',
      GetData 14 id' ''https://raw.githubusercontent.com/afchatfield/lb-list-to-json/main/Ratings/top_250_romance_films.json'',
      GetData 15 id' ''https://raw.githubusercontent.com/afchatfield/lb-list-to-json/main/Ratings/top_250_comedy_films.json'',
      GetData 16 id' ''https://raw.githubusercontent.com/afchatfield/lb-list-to-json/main/Ratings/top_500_european_films.json'',
      GetData 17 id' ''https://raw.githubusercontent.com/afchatfield/lb-list-to-json/main/Ratings/top_250_south_american_films.json'',
      GetData 18 id' ''https://raw.githubusercontent.com/afchatfield/lb-list-to-json/main/Ratings/official-top-250-documentary-films.json'',
      GetData 19 id' ''https://raw.githubusercontent.com/afchatfield/lb-list-to-json/main/Ratings/top_1000_actor_films.json'',
      GetData 20 id' ''https://raw.githubusercontent.com/afchatfield/lb-list-to-json/main/Ratings/top_200_chinese_films.json'',
      GetData 21 id' ''https://raw.githubusercontent.com/afchatfield/lb-list-to-json/main/Ratings/top_250_indian_films.json'',
      GetData 22 id' ''https://raw.githubusercontent.com/afchatfield/lb-list-to-json/main/Ratings/top_100_australian_films.json'',
      GetData 23 id' ''https://raw.githubusercontent.com/afchatfield/lb-list-to-json/main/Ratings/top_100_south_east_asian_films.json'',
      GetData 24 id' ''https://raw.githubusercontent.com/afchatfield/lb-list-to-json/main/Ratings/top_200_middle_eastern_films.json'',
      GetData 25 id' ''https://raw.githubusercontent.com/afchatfield/lb-list-to-json/main/Ratings/top_100_russian_films.json'',
      GetData 26 id' ''https://raw.githubusercontent.com/afchatfield/lb-list-to-json/main/Ratings/top_50_new_zealand_films.json'',
      GetData 27 id' ''https://raw.githubusercontent.com/afchatfield/lb-list-to-json/main/Ratings/top_250_usa_films.json'',
      GetData 28 id' ''https://raw.githubusercontent.com/afchatfield/lb-list-to-json/main/Ratings/top_100_canadian_films.json'',
      GetActors ''https://raw.githubusercontent.com/afchatfield/lb-list-to-json/main/Ratings/top_1000_actors.json'']"

text \<open>
  The handler: an exception of the first statement leaves it, uncaught, before any
  fetch is started.
\<close>

definition on_load :: "poster \<Rightarrow> js_error + request list" where
  "on_load p = (case read_id p of Inl e \<Rightarrow> Inl e | Inr id' \<Rightarrow> Inr (requests id'))"

subsection \<open>The actor lookup\<close>

text \<open>
  \<open>String(v)\<close>. An integer below \<open>2^53\<close> in absolute value prints as its decimal
  digits; beyond, the digits are those of the shortest decimal that reads back as
  the same double (in exponent form from \<open>1e21\<close>): \<open>num_str\<close> stands for the
  browser's conversion there. An array prints its elements, \<open>null\<close> as the empty
  string, joined by commas. An object prints as \<open>[object Object]\<close>, unless it has a
  key \<open>toString\<close>: the value of the key is no function, \<open>valueOf\<close> gives no
  primitive value either, and the conversion throws a TypeError.
\<close>

definition string_of_int :: "int \<Rightarrow> string" where
  "string_of_int n = (if n < 0 then CHR ''-'' # string_of_nat (nat (- n)) else string_of_nat (nat n))"

fun join_comma :: "string list \<Rightarrow> string" where
  "join_comma [] = []"
| "join_comma [s] = s"
| "join_comma (s # t # ss) = s @ '','' @ join_comma (t # ss)"

definition number_to_String :: "(int \<Rightarrow> string) \<Rightarrow> int \<Rightarrow> string" where
  "number_to_String num_str n =
     (if - 9007199254740991 \<le> n \<and> n \<le> 9007199254740991 then string_of_int n else num_str n)"

text \<open>The results of a sequence of conversions, up to the first that throws.\<close>

fun collect :: "(js_error + 'a) list \<Rightarrow> js_error + 'a list" where
  "collect [] = Inr []"
| "collect (Inl e # rs) = Inl e"
| "collect (Inr x # rs) = (case collect rs of Inl e \<Rightarrow> Inl e | Inr xs \<Rightarrow> Inr (x # xs))"

fun json_to_String :: "(int \<Rightarrow> string) \<Rightarrow> json \<Rightarrow> js_error + string" where
  "json_to_String num_str JNull = Inr ''null''"
| "json_to_String num_str (JBool b) = Inr (if b then ''true'' else ''false'')"
| "json_to_String num_str (JNum n) = Inr (number_to_String num_str n)"
| "json_to_String num_str (JStr s) = Inr s"
| "json_to_String num_str (JArr xs) =
     (case collect (map (\<lambda>x. if x = JNull then Inr [] else json_to_String num_str x) xs) of
        Inl e \<Rightarrow> Inl e
      | Inr ss \<Rightarrow> Inr (join_comma ss))"
| "json_to_String num_str (JObj kvs) =
     (if ''toString'' \<in> set (map fst kvs) then Inl TypeError else Inr ''[object Object]'')"

definition to_String :: "(int \<Rightarrow> string) \<Rightarrow> json option \<Rightarrow> js_error + string" where
  "to_String num_str v =
     (case v of None \<Rightarrow> Inr ''undefined'' | Some x \<Rightarrow> json_to_String num_str x)"

text \<open>The callback of \<open>out.find\<close> in \<open>getActors\<close>: \<open>top1000Actors.push(String(item.actor))\<close>.\<close>

definition getActors_callback ::
  "(int \<Rightarrow> string) \<Rightarrow> json \<Rightarrow> nat \<Rightarrow> string list \<Rightarrow> string list \<times> (js_error + bool)" where
  "getActors_callback num_str item i top1000Actors =
     (case get_prop item ''actor'' of
        Inl e \<Rightarrow> (top1000Actors, Inl e)
      | Inr v \<Rightarrow>
          (case to_String num_str v of
             Inl e \<Rightarrow> (top1000Actors, Inl e)
           | Inr name \<Rightarrow> (top1000Actors @ [name], Inr False)))"

text \<open>\<open>Array.prototype.indexOf\<close>: the first index of an equal element, or \<open>-1\<close>.\<close>

fun indexOf :: "'a list \<Rightarrow> 'a \<Rightarrow> int" where
  "indexOf [] x = - 1"
| "indexOf (y # ys) x =
     (if y = x then 0 else (let r = indexOf ys x in if r < 0 then - 1 else r + 1))"

fun textContent :: "dom \<Rightarrow> string" where
  "textContent (TextNode s) = s"
| "textContent (Element t as st cs) = concat (map textContent cs)"

definition actor_parameters :: parameters where
  "actor_parameters =
     \<lparr>p_list = ''/el_duderinno/list/top-1000-actors-biggest-film/page/'',
      p_icon = ''https://raw.githubusercontent.com/afchatfield/lb-list-to-json/main/Icons/actor_red.png'',
      p_size = \<lparr>s_height = ''12'', s_width = ''12'', s_style = Some ''margin-top: 1px;''\<rparr>\<rparr>"

text \<open>
  The body of \<open>castAnchors.forEach\<close>. \<open>nfc\<close> stands for
  \<open>String.prototype.normalize('NFC')\<close>, a function of the browser.
\<close>

definition getActors_each :: "(string \<Rightarrow> string) \<Rightarrow> string list \<Rightarrow> dom \<Rightarrow> dom" where
  "getActors_each nfc top1000Actors element =
     (let position = indexOf top1000Actors (nfc (textContent element))
      in if position \<ge> 0 then addActorIcon element (nat position + 1) actor_parameters
         else element)"

text \<open>
  The promise chain of \<open>getActors\<close>, on the cast anchors found when it was called:
  the anchors afterwards, and the reason when its last promise rejects.
\<close>

record actors_outcome =
  anchors :: "dom list"
  a_rejected :: "js_error option"

definition getActors ::
  "(string \<Rightarrow> string) \<Rightarrow> (int \<Rightarrow> string) \<Rightarrow> dom list \<Rightarrow> fetch_result \<Rightarrow> actors_outcome" where
  "getActors nfc num_str castAnchors r =
     (case r of
        FetchRejected \<Rightarrow> \<lparr>anchors = castAnchors, a_rejected = Some FetchFailed\<rparr>
      | BodyNotJson \<Rightarrow> \<lparr>anchors = castAnchors, a_rejected = Some SyntaxError\<rparr>
      | Body out \<Rightarrow>
          (case out of
             JArr xs \<Rightarrow>
               (case find_js (getActors_callback num_str) xs 0 [] of
                  (top1000Actors, Inl e) \<Rightarrow> \<lparr>anchors = castAnchors, a_rejected = Some e\<rparr>
                | (top1000Actors, Inr found) \<Rightarrow>
                    \<lparr>anchors = map (getActors_each nfc top1000Actors) castAnchors,
                     a_rejected = None\<rparr>)
           | _ \<Rightarrow> \<lparr>anchors = castAnchors, a_rejected = Some TypeError\<rparr>))"

text \<open>The name a row contributes to the index, or the exception it raises.\<close>

definition actor_name :: "(int \<Rightarrow> string) \<Rightarrow> json \<Rightarrow> js_error + string" where
  "actor_name num_str item =
     (case get_prop item ''actor'' of Inl e \<Rightarrow> Inl e | Inr v \<Rightarrow> to_String num_str v)"

definition cast_anchor :: "string \<Rightarrow> dom" where
  "cast_anchor name = Element ''a'' [(''class'', ''text-slug tooltip'')] [] [TextNode name]"

definition actor_dataset :: "json list" where
  "actor_dataset = [JObj [(''actor'', JStr ''Name A'')], JObj [(''actor'', JStr ''Name B'')]]"

text \<open>The same names as bare strings, and a row whose name cannot be converted.\<close>

definition bare_names :: "json list" where
  "bare_names = [JStr ''Name A'', JStr ''Name B'']"

definition unprintable_rows :: "json list" where
  "unprintable_rows =
     [JObj [(''actor'', JStr ''Name B'')], JObj [(''actor'', JObj [(''toString'', JNum 1)])]]"

subsection \<open>The run of a page load\<close>

text \<open>
  The promise chains settle one by one, in some order, each with what the network
  gave for its link: a dataset chain applies the calls of its scan to the page, the
  actor chain rewrites the cast anchors, and a chain whose last promise rejects
  leaves an unhandled rejection, since no chain has a rejection handler.
\<close>

record run =
  r_page :: page
  r_cast :: "dom list"
  r_unhandled :: "(request \<times> js_error) list"

definition settle ::
  "(string \<Rightarrow> string) \<Rightarrow> (int \<Rightarrow> string) \<Rightarrow> (string \<Rightarrow> fetch_result) \<Rightarrow> request \<Rightarrow> run \<Rightarrow> run" where
  "settle nfc num_str net q st =
     (case q of
        GetData type id' json_link \<Rightarrow>
          (let r = getData type id' (net json_link)
           in st\<lparr>r_page := fold apply_call (calls r) (r_page st),
                 r_unhandled := r_unhandled st
                    @ (case rejected r of None \<Rightarrow> [] | Some e \<Rightarrow> [(q, e)])\<rparr>)
      | GetActors json_link \<Rightarrow>
          (let r = getActors nfc num_str (r_cast st) (net json_link)
           in st\<lparr>r_cast := anchors r,
                 r_unhandled := r_unhandled st
                    @ (case a_rejected r of None \<Rightarrow> [] | Some e \<Rightarrow> [(q, e)])\<rparr>))"

text \<open>What a request adds to the page and to the unhandled rejections.\<close>

definition request_calls :: "(string \<Rightarrow> fetch_result) \<Rightarrow> request \<Rightarrow> call list" where
  "request_calls net q =
     (case q of
        GetData type id' json_link \<Rightarrow> calls (getData type id' (net json_link))
      | GetActors json_link \<Rightarrow> [])"

definition request_rejection :: "(string \<Rightarrow> fetch_result) \<Rightarrow> request \<Rightarrow> (request \<times> js_error) list" where
  "request_rejection net q =
     (case (case q of
              GetData type id' json_link \<Rightarrow> rejected (getData type id' (net json_link))
            | GetActors json_link \<Rightarrow> a_rejected (getActors (\<lambda>s. s) string_of_int [] (net json_link))) of
        None \<Rightarrow> []
      | Some e \<Rightarrow> [(q, e)])"

text \<open>The networks, runs and requests of the scenarios.\<close>

definition actor_net :: "string \<Rightarrow> fetch_result" where
  "actor_net json_link = Body (JArr actor_dataset)"

definition fresh_run :: run where
  "fresh_run = \<lparr>r_page = ready_page, r_cast = [cast_anchor ''Name B''], r_unhandled = []\<rparr>"

text \<open>The link a request fetches.\<close>

fun link_of :: "request \<Rightarrow> string" where
  "link_of (GetData type id' json_link) = json_link"
| "link_of (GetActors json_link) = json_link"

definition film_net :: "string \<Rightarrow> fetch_result" where
  "film_net json_link = Body (JArr scenario_dataset)"

definition flame_link :: string where
  "flame_link = ''https://raw.githubusercontent.com/afchatfield/lb-list-to-json/main/Ratings/movies_with_100000_or_more_watched.json''"

definition three_requests :: "request list" where
  "three_requests = take 3 (requests (Num 20))"

definition rejecting_net :: "string \<Rightarrow> fetch_result" where
  "rejecting_net = film_net(flame_link := FetchRejected)"

definition after_rejection :: page where
  "after_rejection =
     deliver [[ELEMENT_NODE]] (r_page (fold (settle (\<lambda>s. s) string_of_int rejecting_net) three_requests fresh_run))"

section \<open>Properties\<close>

subsection \<open>Page numbers\<close>

lemma pageOf_div: "pageOf ranking = ranking div 100 + 1"
proof -
  have "\<lfloor>(of_nat ranking :: rat) / 100\<rfloor> = int (ranking div 100)"
    using floor_divide_of_nat_eq [of ranking 100, where ?'a = rat] by simp
  moreover have "\<not> (of_nat ranking :: rat) / 100 < 0"
    by simp
  ultimately show ?thesis
    by (simp add: pageOf_def parseInt_number_def)
qed

text \<open>
  Claim C1, as the code has it: the page number of every deep link is
  \<open>floor(rank / 100) + 1\<close>; it is monotonic non-decreasing in the rank; it is 1 for
  every rank in 1..99, 2 for rank 101 and 3 for rank 200.
\<close>

theorem C1_pageOf:
  "pageOf r = r div 100 + 1
   \<and> (r \<le> r' \<longrightarrow> pageOf r \<le> pageOf r')
   \<and> (1 \<le> r \<and> r \<le> 99 \<longrightarrow> pageOf r = 1)
   \<and> pageOf 101 = 2 \<and> pageOf 200 = 3"
  by (simp add: pageOf_div div_le_mono)

theorem C1_pageOf_witness:
  "pageOf 57 = 57 div 100 + 1 \<and> (57::nat) \<le> 150 \<and> pageOf 57 \<le> pageOf 150
   \<and> (1::nat) \<le> 57 \<and> (57::nat) \<le> 99 \<and> pageOf 57 = 1"
  using C1_pageOf [of 57 150] by simp

text \<open>
  The claim's range 1..100 fails at its upper end: rank 100 is already sent to page 2.
\<close>

theorem C1_rank_100_counterexample:
  "1 \<le> (100::nat) \<and> (100::nat) \<le> 100 \<and> pageOf 100 = 2 \<and> pageOf 100 \<noteq> 1"
  by (simp add: pageOf_div)

subsection \<open>The dataset scan\<close>

lemma get_prop_nonnull: "x \<noteq> JNull \<Longrightarrow> \<exists>v. get_prop x k = Inr v"
  by (cases x) simp_all

lemma getData_cond_nonnull: "x \<noteq> JNull \<Longrightarrow> \<exists>b. getData_cond x id' = Inr b"
  using get_prop_nonnull [of x "''Date''"] get_prop_nonnull [of x "''id''"]
  by (auto simp: getData_cond_def)

lemma find_scan:
  "JNull \<notin> set D \<Longrightarrow>
   find_js (getData_callback type id') D i cs =
     (cs @ concat (map (\<lambda>(j, x). if item_matches id' x then getData_branch type j else [])
                       (enumerate i D)), Inr None)"
proof (induction D arbitrary: i cs)
  case Nil
  then show ?case by simp
next
  case (Cons x D)
  from Cons.prems have nn: "x \<noteq> JNull" and rest: "JNull \<notin> set D" by auto
  from getData_cond_nonnull [OF nn] obtain b where c: "getData_cond x id' = Inr b"
    by blast
  show ?case
    using Cons.IH [OF rest] c
    by (cases b) (simp_all add: getData_callback_def item_matches_def)
qed

lemma no_match_concat:
  "\<forall>x\<in>set xs. \<not> m x \<Longrightarrow>
   concat (map (\<lambda>(j, x). if m x then g j else []) (enumerate n xs)) = []"
  by (induction xs arbitrary: n) simp_all

lemma single_match_concat:
  assumes "i < length D" and "m (D ! i)"
    and "\<forall>j<length D. j \<noteq> i \<longrightarrow> \<not> m (D ! j)"
  shows "concat (map (\<lambda>(j, x). if m x then g j else []) (enumerate 0 D)) = g i"
proof -
  have D: "D = take i D @ D ! i # drop (Suc i) D"
    using assms(1) by (simp add: id_take_nth_drop)
  have pre: "\<forall>x\<in>set (take i D). \<not> m x"
    using assms(1,3) by (auto simp: in_set_conv_nth)
  have post: "\<forall>x\<in>set (drop (Suc i) D). \<not> m x"
    using assms(1,3) by (auto simp: in_set_conv_nth)
  have e: "enumerate 0 D = enumerate 0 (take i D) @ (i, D ! i) # enumerate (Suc i) (drop (Suc i) D)"
    using assms(1) by (subst D) (simp add: enumerate_append_eq min_def)
  have a: "concat (map (\<lambda>(j, x). if m x then g j else []) (enumerate 0 (take i D))) = []"
    by (rule no_match_concat [OF pre])
  have b: "concat (map (\<lambda>(j, x). if m x then g j else []) (enumerate (Suc i) (drop (Suc i) D))) = []"
    by (rule no_match_concat [OF post])
  show ?thesis
    using assms(2) by (simp add: e a b)
qed

lemma count_concat:
  "\<forall>j. length (g j) = 1 \<Longrightarrow>
   length (concat (map (\<lambda>(j, x). if m x then g j else []) (enumerate n xs))) = length (filter m xs)"
  by (induction xs arbitrary: n) simp_all

lemma branch_rank:
  "1 \<le> type \<Longrightarrow> type \<le> 28 \<Longrightarrow> \<exists>c. getData_branch type i = [c] \<and> call_rank c = i + 1"
proof -
  assume lo: "1 \<le> type" and hi: "type \<le> 28"
  show ?thesis
  proof (cases "type = 1")
    case True
    then show ?thesis by (simp add: getData_branch_def)
  next
    case False
    with lo hi have "type \<in> {2..28}" by auto
    then have "parameters_of type \<noteq> None"
      by (simp add: parameters_of_def) arith
    with False show ?thesis by (auto simp: getData_branch_def)
  qed
qed

lemma enumerate_index_form:
  "map (\<lambda>(j, x). F j x) (enumerate 0 D) = map (\<lambda>j. F j (D ! j)) [0..<length D]"
  by (rule nth_equalityI) (simp_all add: nth_enumerate_eq)

text \<open>
  Claim C3: in a dataset of entries (none of them \<open>null\<close>) where the film
  identifier \<open>k\<close> is matched at index \<open>i\<close> and nowhere else, the scan of every
  category \<open>1..28\<close> makes exactly one call, with the 1-based rank \<open>i + 1\<close>, and
  its promise fulfils. For the dataset \<open>[{"id":10},{"id":20},{"id":30}]\<close> and the
  identifier 20 the rank is 2 and its page is 1.
\<close>

theorem C3_position_lookup:
  assumes "i < length D" and "JNull \<notin> set D"
    and "item_matches (Num k) (D ! i)"
    and "\<forall>j<length D. j \<noteq> i \<longrightarrow> \<not> item_matches (Num k) (D ! j)"
    and "1 \<le> type" and "type \<le> 28"
  shows "(\<exists>c. getData type (Num k) (Body (JArr D)) = \<lparr>calls = [c], rejected = None\<rparr>
              \<and> call_rank c = i + 1)
         \<and> (\<exists>c. getData type (Num 20) (Body (JArr scenario_dataset))
                    = \<lparr>calls = [c], rejected = None\<rparr>
              \<and> call_rank c = 2 \<and> pageOf (call_rank c) = 1)"
proof -
  have general:
    "\<exists>c. getData type (Num k') (Body (JArr D')) = \<lparr>calls = [c], rejected = None\<rparr>
          \<and> call_rank c = i' + 1"
    if "i' < length D'" and "JNull \<notin> set D'" and "item_matches (Num k') (D' ! i')"
      and "\<forall>j<length D'. j \<noteq> i' \<longrightarrow> \<not> item_matches (Num k') (D' ! j)"
    for i' D' k'
  proof -
    have "find_js (getData_callback type (Num k')) D' 0 [] = (getData_branch type i', Inr None)"
      using find_scan [OF that(2), of type "Num k'" 0 "[]"]
        single_match_concat [of i' D' "item_matches (Num k')" "getData_branch type", OF that(1,3,4)]
      by simp
    then show ?thesis
      using branch_rank [OF assms(5,6), of i'] by (auto simp: getData_def)
  qed
  have "\<exists>c. getData type (Num 20) (Body (JArr scenario_dataset))
              = \<lparr>calls = [c], rejected = None\<rparr> \<and> call_rank c = 1 + 1"
    by (rule general)
       (simp_all add: scenario_dataset_def item_matches_def getData_cond_def All_less_Suc)
  then show ?thesis
    using general [OF assms(1-4)] by (auto simp: pageOf_div)
qed

theorem C3_position_lookup_witness:
  "(1::nat) < length scenario_dataset \<and> JNull \<notin> set scenario_dataset
   \<and> item_matches (Num 20) (scenario_dataset ! 1)
   \<and> \<not> item_matches (Num 20) (scenario_dataset ! 0)
   \<and> \<not> item_matches (Num 20) (scenario_dataset ! 2)
   \<and> (\<exists>c. getData 2 (Num 20) (Body (JArr scenario_dataset)) = \<lparr>calls = [c], rejected = None\<rparr>
          \<and> call_rank c = 1 + 1)"
proof -
  have h1: "(1::nat) < length scenario_dataset" and h2: "JNull \<notin> set scenario_dataset"
    and h3: "item_matches (Num 20) (scenario_dataset ! 1)"
    and h0: "\<not> item_matches (Num 20) (scenario_dataset ! 0)"
    and h5: "\<not> item_matches (Num 20) (scenario_dataset ! 2)"
    by (simp_all add: scenario_dataset_def item_matches_def getData_cond_def)
  have h4: "\<forall>j<length scenario_dataset. j \<noteq> 1 \<longrightarrow> \<not> item_matches (Num 20) (scenario_dataset ! j)"
    by (simp add: scenario_dataset_def item_matches_def getData_cond_def All_less_Suc)
  have t: "(1::nat) \<le> 2" "(2::nat) \<le> 28" by simp_all
  from C3_position_lookup [OF h1 h2 h3 h4 t] h1 h2 h3 h0 h5 show ?thesis
    by blast
qed

text \<open>
  Claim C9: when no entry of the dataset matches the identifier (a number or
  \<open>NaN\<close>), \<open>find\<close> returns \<open>undefined\<close>, no badge call is made, and the
  promise fulfils: nothing is thrown.
\<close>

theorem C9_lookup_miss:
  assumes "JNull \<notin> set D" and "\<forall>x\<in>set D. \<not> item_matches id' x"
  shows "find_js (getData_callback type id') D 0 [] = ([], Inr None)
         \<and> getData type id' (Body (JArr D)) = \<lparr>calls = [], rejected = None\<rparr>"
  using find_scan [OF assms(1), of type id' 0 "[]"]
    no_match_concat [OF assms(2), of "getData_branch type" 0]
  by (simp add: getData_def)

theorem C9_lookup_miss_witness:
  "JNull \<notin> set scenario_dataset
   \<and> \<not> item_matches (Num 40) (scenario_dataset ! 0)
   \<and> \<not> item_matches (Num 40) (scenario_dataset ! 1)
   \<and> \<not> item_matches (Num 40) (scenario_dataset ! 2)
   \<and> find_js (getData_callback 1 (Num 40)) scenario_dataset 0 [] = ([], Inr None)
   \<and> getData 1 (Num 40) (Body (JArr scenario_dataset)) = \<lparr>calls = [], rejected = None\<rparr>"
proof -
  have h1: "JNull \<notin> set scenario_dataset"
    and h2: "\<forall>x\<in>set scenario_dataset. \<not> item_matches (Num 40) x"
    by (simp_all add: scenario_dataset_def item_matches_def getData_cond_def)
  from C9_lookup_miss [OF h1 h2, of 1] h1 h2 show ?thesis
    by (simp add: scenario_dataset_def)
qed

text \<open>
  Claim C10: the callback of \<open>find\<close> never returns a truthy value, so the scan
  runs over every index of the dataset and \<open>find\<close> returns \<open>undefined\<close>; the calls
  made are those of all matching indices, in order, one per occurrence of the
  identifier.
\<close>

theorem C10_scan_visits_all:
  "snd (getData_callback type id' item i cs) \<noteq> Inr True
   \<and> (JNull \<notin> set D \<longrightarrow>
        find_js (getData_callback type id') D 0 [] =
          (concat (map (\<lambda>j. if item_matches id' (D ! j) then getData_branch type j else [])
                       [0..<length D]), Inr None))
   \<and> (JNull \<notin> set D \<and> 1 \<le> type \<and> type \<le> 28 \<longrightarrow>
        length (calls (getData type id' (Body (JArr D)))) = length (filter (item_matches id') D))"
proof (intro conjI impI)
  show "snd (getData_callback type id' item i cs) \<noteq> Inr True"
    by (simp add: getData_callback_def split: sum.splits)
next
  assume "JNull \<notin> set D"
  then show "find_js (getData_callback type id') D 0 [] =
          (concat (map (\<lambda>j. if item_matches id' (D ! j) then getData_branch type j else [])
                       [0..<length D]), Inr None)"
    using find_scan [of D type id' 0 "[]"]
      enumerate_index_form [of "\<lambda>j x. if item_matches id' x then getData_branch type j else []" D]
    by simp
next
  assume a: "JNull \<notin> set D \<and> 1 \<le> type \<and> type \<le> 28"
  have "length (getData_branch type j) = 1" for j
    using a branch_rank [of type j] by auto
  then have "\<forall>j. length (getData_branch type j) = 1"
    by blast
  then show "length (calls (getData type id' (Body (JArr D)))) = length (filter (item_matches id') D)"
    using a find_scan [of D type id' 0 "[]"]
      count_concat [of "getData_branch type" "item_matches id'" 0 D]
    by (simp add: getData_def)
qed

theorem C10_scan_visits_all_witness:
  "JNull \<notin> set repeated_dataset \<and> (1::nat) \<le> 1 \<and> (1::nat) \<le> 28
   \<and> snd (getData_callback 1 (Num 20) (repeated_dataset ! 0) 0 []) \<noteq> Inr True
   \<and> find_js (getData_callback 1 (Num 20)) repeated_dataset 0 [] = ([AddCrown 1, AddCrown 3], Inr None)
   \<and> length (calls (getData 1 (Num 20) (Body (JArr repeated_dataset)))) = 2"
proof -
  have h: "JNull \<notin> set repeated_dataset"
    by (simp add: repeated_dataset_def)
  have m: "item_matches (Num 20) (repeated_dataset ! 0)" "\<not> item_matches (Num 20) (repeated_dataset ! 1)"
    "item_matches (Num 20) (repeated_dataset ! 2)" "length repeated_dataset = 3"
    by (simp_all add: repeated_dataset_def item_matches_def getData_cond_def)
  have f: "filter (item_matches (Num 20)) repeated_dataset = [repeated_dataset ! 0, repeated_dataset ! 2]"
    using m by (simp add: repeated_dataset_def)
  have u: "[0..<3] = [0, 1, 2]" by (simp add: upt_rec)
  from C10_scan_visits_all [of 1 "Num 20" "repeated_dataset ! 0" 0 "[]" repeated_dataset] h m f u
  show ?thesis
    by (simp add: getData_branch_def)
qed

subsection \<open>Badge construction\<close>

text \<open>
  Claim C8, as the code has it: the badge is a function of the rank and the display
  parameters alone. \<open>addIcon\<close> builds a \<open>div\<close> of class \<open>production-statistic\<close>
  whose only child is an anchor; \<open>addActorIcon\<close> builds that anchor bare. The
  anchor's \<open>href\<close> is the list URL followed by the page number, and its children
  are an image, with the icon URL as \<open>src\<close> and the size entries as attributes,
  followed by a text node with the decimal rank.
\<close>

theorem C8_badge_structure:
  "addIcon_element ranking p =
     Element ''div'' [(''class'', ''production-statistic'')] []
       [Element ''a'' [(''href'', p_list p @ string_of_nat (pageOf ranking))]
          [(''fontSize'', ''.92307692rem'')]
          [Element ''img'' ((''src'', p_icon p) # size_entries (p_size p))
             [(''float'', ''left''), (''marginLeft'', ''-1px''), (''marginRight'', ''3px'')] [],
           TextNode (string_of_nat ranking)]]
   \<and> addActorIcon_element ranking p =
       Element ''a'' [(''href'', p_list p @ string_of_nat (pageOf ranking))]
          [(''fontSize'', ''.92307692rem'')]
          [Element ''img'' ((''src'', p_icon p) # size_entries (p_size p))
             [(''display'', ''inline''), (''marginBottom'', ''-1px''), (''marginLeft'', ''3px''),
              (''marginRight'', ''3px'')] [],
           TextNode (string_of_nat ranking)]"
  by (cases "s_style (p_size p)")
     (simp_all add: addIcon_element_def addActorIcon_element_def createElement_def
        createTextNode_def size_entries_def)

theorem C8_badge_structure_witness:
  "el_children (addIcon_element 150 flame_parameters) =
     [Element ''a''
        [(''href'', ''/el_duderinno/list/every-movie-with-more-than-100000-watched/page/2'')]
        [(''fontSize'', ''.92307692rem'')]
        [Element ''img''
           [(''src'', ''https://raw.githubusercontent.com/frozenpandaman/letterboxd-userscripts/master/top-2000-flame.svg''),
            (''height'', ''12''), (''width'', ''12'')]
           [(''float'', ''left''), (''marginLeft'', ''-1px''), (''marginRight'', ''3px'')] [],
         TextNode ''150'']]"
proof -
  have p: "string_of_nat (pageOf 150) = ''2''" and r: "string_of_nat 150 = ''150''"
    by code_simp+
  from C8_badge_structure [of 150 flame_parameters] show ?thesis
    by (simp add: p r) (simp add: flame_parameters_def size_entries_def)
qed

text \<open>The root of the element \<open>addIcon\<close> builds is the \<open>div\<close>, not the anchor.\<close>

theorem C8_root_is_div_counterexample:
  "el_tag (addIcon_element 150 flame_parameters) = ''div''
   \<and> el_tag (addIcon_element 150 flame_parameters) \<noteq> ''a''"
  by (simp add: addIcon_element_def createElement_def)

subsection \<open>The deferred mount\<close>

lemma stays_refl: "stays s s"
  by (simp add: stays_def)

lemma stays_trans: "stays a b \<Longrightarrow> stays b c \<Longrightarrow> stays a c"
  by (auto simp: stays_def)

lemma for_of_stays:
  assumes step: "\<And>x s. stays s (fst (body x s))"
  shows "stays s (fst (for_of body xs s))"
proof (induction xs arbitrary: s)
  case Nil
  show ?case by (simp add: stays_refl)
next
  case (Cons x xs)
  obtain s' e where b: "body x s = (s', e)" by (cases "body x s")
  have 1: "stays s s'" using step [of s x] b by simp
  show ?case
  proof (cases e)
    case None
    then show ?thesis using b 1 Cons.IH [of s'] by (auto intro: stays_trans)
  next
    case (Some a)
    then show ?thesis using b 1 by simp
  qed
qed

lemma addCrown_body_stays: "stays s (fst (addCrown_body n x s))"
  by (simp add: addCrown_body_def stays_def split: option.splits)

lemma addIcon_body_stays: "stays s (fst (addIcon_body n x s))"
  by (simp add: addIcon_body_def stays_def Let_def split: option.splits)

lemma callback_stays: "stays s (fst (observer_callback kind n ms s))"
  unfolding observer_callback_def
  by (cases kind)
     (simp_all add: for_of_stays addCrown_body_stays addIcon_body_stays)

lemma notify_stays: "stays s (fst (notify (observer_callback kind n) ms s))"
  by (simp add: notify_def callback_stays stays_refl)

lemma notify_disconnected: "\<not> snd s \<Longrightarrow> notify cb ms s = (s, None)"
  by (simp add: notify_def)

lemma insertions_disconnected: "\<not> snd s \<Longrightarrow> insertions cb n evs s = 0"
  by (induction cb n evs s rule: insertions.induct) (simp_all add: notify_def)

lemma run_disconnected: "\<not> snd s \<Longrightarrow> \<not> snd (run_observer cb evs s)"
  by (induction cb evs s rule: run_observer.induct) (simp_all add: notify_def)

lemma insertions_le_1: "insertions (observer_callback kind n) n evs s \<le> 1"
proof (induction evs arbitrary: s)
  case Nil
  show ?case by simp
next
  case (Cons ev evs)
  show ?case
  proof (cases ev)
    case (Change d)
    then show ?thesis using Cons.IH by simp
  next
    case (Records ms)
    let ?s' = "fst (notify (observer_callback kind n) ms s)"
    show ?thesis
    proof (cases "is_child n (fst ?s') \<and> \<not> is_child n (fst s)")
      case True
      then have "stat_list (fst ?s') \<noteq> stat_list (fst s)"
        by (auto simp: is_child_def)
      then have "\<not> snd ?s'"
        using notify_stays [of s kind n ms] by (auto simp: stays_def)
      then have "insertions (observer_callback kind n) n evs ?s' = 0"
        by (rule insertions_disconnected)
      then show ?thesis using Records True by (simp add: Let_def)
    next
      case False
      then show ?thesis using Records Cons.IH [of ?s'] by (auto simp: Let_def)
    qed
  qed
qed

lemma for_of_inv:
  assumes step: "\<And>x s. P s \<Longrightarrow> P (fst (body x s))" and init: "P s"
  shows "P (fst (for_of body xs s))"
  using init
proof (induction xs arbitrary: s)
  case Nil
  then show ?case by simp
next
  case (Cons x xs)
  obtain s' e where b: "body x s = (s', e)" by (cases "body x s")
  have 1: "P s'" using step [OF Cons.prems, of x] b by simp
  show ?case
    using b 1 Cons.IH [OF 1] by (cases e) simp_all
qed

lemma distinct_appendChild_node:
  "distinct (map fst kids) \<Longrightarrow> distinct (map fst (appendChild_node n kids))"
  by (auto simp: appendChild_node_def distinct_map_filter)

lemma addCrown_body_distinct: "distinct_kids s \<Longrightarrow> distinct_kids (fst (addCrown_body n x s))"
  by (auto simp: addCrown_body_def distinct_kids_def distinct_appendChild_node split: option.splits)

lemma addIcon_body_distinct: "distinct_kids s \<Longrightarrow> distinct_kids (fst (addIcon_body n x s))"
  by (auto simp: addIcon_body_def distinct_kids_def distinct_appendChild_node Let_def
      split: option.splits)

lemma callback_distinct:
  "distinct_kids s \<Longrightarrow> distinct_kids (fst (observer_callback kind n ms s))"
  unfolding observer_callback_def
  by (cases kind)
     (auto intro!: for_of_inv [where P = distinct_kids]
        simp: addCrown_body_distinct addIcon_body_distinct)

lemma notify_distinct:
  "distinct_kids s \<Longrightarrow> distinct_kids (fst (notify (observer_callback kind n) ms s))"
  by (simp add: notify_def callback_distinct)

text \<open>
  Claim C5: over any sequence of delivered batches and changes of the document, the
  badge of an observer (crown or icon) becomes a child of the list at most once. A
  batch that changes the children of the list leaves the observer disconnected; a
  disconnected observer's callback is not called again, so no later batch inserts
  anything, whatever happens to the list; and the node identities among the
  children stay distinct, so the badge is never there twice. (Within the batch
  that mounts it, \<open>addIcon\<close>'s loop goes on after \<open>disconnect()\<close> and appends
  the same node again for each further added element: the node is moved to the
  end, where it already is.)
\<close>

theorem C5_deferred_mount:
  "insertions (observer_callback kind badge) badge evs s \<le> 1
   \<and> (\<not> snd s \<longrightarrow>
        insertions (observer_callback kind badge) badge evs s = 0
        \<and> notify (observer_callback kind badge) ms s = (s, None)
        \<and> \<not> snd (run_observer (observer_callback kind badge) evs s))
   \<and> (stat_list (fst (fst (notify (observer_callback kind badge) ms s))) \<noteq> stat_list (fst s)
        \<longrightarrow> \<not> snd (fst (notify (observer_callback kind badge) ms s)))
   \<and> (stat_list (fst s) = Some kids \<and> distinct (map fst kids)
        \<and> stat_list (fst (fst (notify (observer_callback kind badge) ms s))) = Some kids'
        \<longrightarrow> distinct (map fst kids'))"
proof (intro conjI impI)
  show "insertions (observer_callback kind badge) badge evs s \<le> 1"
    by (rule insertions_le_1)
next
  assume "\<not> snd s"
  then show "insertions (observer_callback kind badge) badge evs s = 0"
    by (rule insertions_disconnected)
next
  assume "\<not> snd s"
  then show "notify (observer_callback kind badge) ms s = (s, None)"
    by (rule notify_disconnected)
next
  assume "\<not> snd s"
  then show "\<not> snd (run_observer (observer_callback kind badge) evs s)"
    by (rule run_disconnected)
next
  assume "stat_list (fst (fst (notify (observer_callback kind badge) ms s))) \<noteq> stat_list (fst s)"
  then show "\<not> snd (fst (notify (observer_callback kind badge) ms s))"
    using notify_stays [of s kind badge ms] by (auto simp: stays_def)
next
  assume a: "stat_list (fst s) = Some kids \<and> distinct (map fst kids)
        \<and> stat_list (fst (fst (notify (observer_callback kind badge) ms s))) = Some kids'"
  then have "distinct_kids s" by (simp add: distinct_kids_def)
  from notify_distinct [OF this, of kind badge ms] a show "distinct (map fst kids')"
    by (simp add: distinct_kids_def)
qed

theorem C5_deferred_mount_witness:
  "insertions (observer_callback Icon icon_badge) icon_badge mount_trace (bare_document, True) = 1
   \<and> insertions (observer_callback Icon icon_badge) icon_badge mount_trace (bare_document, True) \<le> 1
   \<and> \<not> snd (bare_document, False)
   \<and> insertions (observer_callback Icon icon_badge) icon_badge mount_trace (bare_document, False) = 0
   \<and> notify (observer_callback Icon icon_badge) mount_batch (bare_document, False)
       = ((bare_document, False), None)
   \<and> \<not> snd (run_observer (observer_callback Icon icon_badge) mount_trace (bare_document, False))
   \<and> stat_list (fst (fst (notify (observer_callback Icon icon_badge) mount_batch (bare_document, True))))
       \<noteq> stat_list (fst (bare_document, True))
   \<and> \<not> snd (fst (notify (observer_callback Icon icon_badge) mount_batch (bare_document, True)))
   \<and> stat_list (fst (fst (notify (observer_callback Icon icon_badge) mount_batch (bare_document, True))))
       = Some [(HostNode 0, host_div), (HostNode 1, host_div), icon_badge]
   \<and> distinct (map fst [(HostNode 0, host_div), (HostNode 1, host_div), icon_badge])"
proof -
  let ?cb = "observer_callback Icon icon_badge"
  let ?K = "[(HostNode 0, host_div), (HostNode 1, host_div)]"
  let ?K' = "[(HostNode 0, host_div), (HostNode 1, host_div), icon_badge]"
  have one: "insertions ?cb icon_badge mount_trace (bare_document, True) = 1"
    by code_simp
  have off: "\<not> snd (bare_document, False)"
    by simp
  have after: "stat_list (fst (fst (notify ?cb mount_batch (bare_document, True)))) = Some ?K'"
    by code_simp
  have before: "stat_list (fst (bare_document, True)) = Some ?K"
    by (simp add: bare_document_def)
  have changed: "stat_list (fst (fst (notify ?cb mount_batch (bare_document, True))))
      \<noteq> stat_list (fst (bare_document, True))"
    unfolding after before by simp
  have ids: "distinct (map fst ?K)"
    by simp
  from C5_deferred_mount [of Icon icon_badge mount_trace "(bare_document, True)" mount_batch ?K ?K']
    C5_deferred_mount [of Icon icon_badge mount_trace "(bare_document, False)" mount_batch ?K ?K']
    one off after before changed ids
  show ?thesis by blast
qed

subsection \<open>The marker class\<close>

lemma top250_crown: "count_class ''-top250'' (createTop250Element r) = 1"
  by (simp add: createTop250Element_def createElement_def createTextNode_def class_list_def)

lemma addCrown_body_guard:
  "top250_count d \<noteq> 0 \<Longrightarrow> fst s = d \<Longrightarrow> fst (fst (addCrown_body n x s)) = d"
  by (simp add: addCrown_body_def split: option.splits)

lemma crown_guard:
  assumes "top250_count (fst s) \<noteq> 0"
  shows "fst (fst (observer_callback Crown n ms s)) = fst s"
  unfolding observer_callback_def badge_kind.case
  by (rule for_of_inv [where P = "\<lambda>s'. fst s' = fst s"], rule for_of_inv [where P = "\<lambda>s'. fst s' = fst s"])
     (simp_all add: addCrown_body_guard assms)

lemma sum_list_member_pos:
  fixes f :: "'a \<Rightarrow> nat"
  shows "x \<in> set xs \<Longrightarrow> 0 < f x \<Longrightarrow> 0 < sum_list (map f xs)"
  by (induction xs) auto

lemma crown_present_top250:
  "stat_list d = Some kids \<Longrightarrow> (i, createTop250Element r) \<in> set kids \<Longrightarrow> top250_count d \<noteq> 0"
  using sum_list_member_pos [of "(i, createTop250Element r)" kids "\<lambda>n. count_class ''-top250'' (snd n)"]
  by (simp add: top250_count_def top250_crown del: sum_list_eq_0_iff)

lemma filter_other_ids:
  "fst n \<notin> set (map fst kids) \<Longrightarrow> filter (\<lambda>m. fst m \<noteq> fst n) kids = kids"
  by (induction kids) auto

lemma appendChild_fresh:
  "fst n \<notin> set (map fst kids) \<Longrightarrow> appendChild_node n kids = kids @ [n]"
  by (simp add: appendChild_node_def filter_other_ids)

lemma appendChild_again:
  "fst n \<notin> set (map fst kids) \<Longrightarrow> appendChild_node n (kids @ [n]) = kids @ [n]"
  by (simp add: appendChild_node_def filter_other_ids)

lemma div_count_append: "div_count (kids @ [n]) = div_count kids + count_tag ''div'' (snd n)"
  by (simp add: div_count_def)

lemma addIcon_body_mounted:
  assumes "fst n \<notin> set (map fst kids)" and "1 < div_count kids" and "mounted n kids s"
  shows "addIcon_body n x s = (fst (addIcon_body n x s), None) \<and> mounted n kids (fst (addIcon_body n x s))"
  using assms
  by (auto simp: addIcon_body_def mounted_def Let_def appendChild_again div_count_append)

lemma for_of_ok:
  assumes step: "\<And>x s. P s \<Longrightarrow> body x s = (fst (body x s), None) \<and> P (fst (body x s))"
    and init: "P s"
  shows "for_of body xs s = (fst (for_of body xs s), None) \<and> P (fst (for_of body xs s))"
  using init
proof (induction xs arbitrary: s)
  case Nil
  then show ?case by simp
next
  case (Cons x xs)
  from step [OF Cons.prems, of x] obtain s' where b: "body x s = (s', None)" and p: "P s'"
    by (cases "body x s") auto
  show ?case
    using b Cons.IH [OF p] by simp
qed

lemma icon_inner_mounted:
  assumes "fst n \<notin> set (map fst kids)" and "1 < div_count kids" and "mounted n kids s"
  shows "for_of (addIcon_body n) xs s = (fst (for_of (addIcon_body n) xs s), None)
         \<and> mounted n kids (fst (for_of (addIcon_body n) xs s))"
proof (rule for_of_ok [where P = "mounted n kids"])
  show "mounted n kids s" by (rule assms(3))
next
  fix x s'
  assume "mounted n kids s'"
  then show "addIcon_body n x s' = (fst (addIcon_body n x s'), None)
             \<and> mounted n kids (fst (addIcon_body n x s'))"
    by (rule addIcon_body_mounted [OF assms(1,2)])
qed

lemma icon_inner:
  assumes "fst n \<notin> set (map fst kids)" and "1 < div_count kids"
    and "stat_list (fst s) = Some kids"
  shows "for_of (addIcon_body n) xs s = (fst (for_of (addIcon_body n) xs s), None)
         \<and> stat_list (fst (fst (for_of (addIcon_body n) xs s)))
             = Some (if ELEMENT_NODE \<in> set xs then kids @ [n] else kids)"
  using assms(3)
proof (induction xs arbitrary: s)
  case Nil
  then show ?case by simp
next
  case (Cons x xs)
  show ?case
  proof (cases x)
    case ELEMENT_NODE
    obtain s1 where b: "addIcon_body n x s = (s1, None)" and m: "mounted n kids s1"
      using ELEMENT_NODE Cons.prems assms(1,2)
      by (simp add: addIcon_body_def Let_def mounted_def appendChild_fresh)
    show ?thesis
      using icon_inner_mounted [OF assms(1,2) m, of xs] ELEMENT_NODE b
      by (simp add: mounted_def)
  next
    case OTHER_NODE
    then have b: "addIcon_body n x s = (s, None)"
      by (simp add: addIcon_body_def)
    show ?thesis
      using Cons.IH [OF Cons.prems] OTHER_NODE b by simp
  qed
qed

lemma icon_outer:
  assumes "fst n \<notin> set (map fst kids)" and "1 < div_count kids"
    and "stat_list (fst s) = Some kids"
  shows "stat_list (fst (fst (observer_callback Icon n ms s)))
           = Some (if ELEMENT_NODE \<in> set (concat ms) then kids @ [n] else kids)"
  using assms(3) unfolding observer_callback_def badge_kind.case
proof (induction ms arbitrary: s)
  case Nil
  then show ?case by simp
next
  case (Cons m ms)
  let ?inner = "\<lambda>addedNodes. for_of (addIcon_body n) addedNodes"
  obtain s1 where b: "?inner m s = (s1, None)"
    and st: "stat_list (fst s1) = Some (if ELEMENT_NODE \<in> set m then kids @ [n] else kids)"
    using icon_inner [OF assms(1,2) Cons.prems, of m] by metis
  show ?case
  proof (cases "ELEMENT_NODE \<in> set m")
    case True
    with st have m1: "mounted n kids s1" by (simp add: mounted_def)
    have "mounted n kids (fst (for_of ?inner ms s1))"
      using for_of_ok [where P = "mounted n kids" and body = ?inner and s = s1 and xs = ms]
        icon_inner_mounted [OF assms(1,2)] m1
      by blast
    then show ?thesis using b True by (simp add: mounted_def)
  next
    case False
    with st have "stat_list (fst s1) = Some kids" by simp
    from Cons.IH [OF this] show ?thesis using b False by simp
  qed
qed

text \<open>
  Claim C2, as the code has it: only the crown's observer checks for an element of
  its marker class \<open>-top250\<close> before it appends. Where such an element exists, a
  crown observer leaves the document as it is; the crown element carries the
  class, so a list that holds a crown has one. An icon observer whose list is
  ready appends its badge whatever the list holds already.
\<close>

theorem C2_marker_guard:
  "(top250_count (fst s) \<noteq> 0 \<longrightarrow>
      fst (fst (notify (observer_callback Crown n) ms s)) = fst s)
   \<and> count_class ''-top250'' (createTop250Element r) = 1
   \<and> (stat_list d = Some kids \<and> (i, createTop250Element r) \<in> set kids \<longrightarrow> top250_count d \<noteq> 0)
   \<and> (stat_list (fst s) = Some kids \<and> fst n \<notin> set (map fst kids) \<and> 1 < div_count kids
        \<and> snd s \<and> ELEMENT_NODE \<in> set (concat ms) \<longrightarrow>
      stat_list (fst (fst (notify (observer_callback Icon n) ms s))) = Some (kids @ [n]))"
proof (intro conjI impI)
  assume "top250_count (fst s) \<noteq> 0"
  then show "fst (fst (notify (observer_callback Crown n) ms s)) = fst s"
    by (simp add: notify_def crown_guard)
next
  show "count_class ''-top250'' (createTop250Element r) = 1"
    by (rule top250_crown)
next
  assume "stat_list d = Some kids \<and> (i, createTop250Element r) \<in> set kids"
  then show "top250_count d \<noteq> 0"
    using crown_present_top250 by blast
next
  assume a: "stat_list (fst s) = Some kids \<and> fst n \<notin> set (map fst kids) \<and> 1 < div_count kids
        \<and> snd s \<and> ELEMENT_NODE \<in> set (concat ms)"
  then have ne: "ms \<noteq> []" by auto
  from a have "stat_list (fst (fst (observer_callback Icon n ms s))) = Some (kids @ [n])"
    using icon_outer [of n kids s ms] by simp
  with a ne show "stat_list (fst (fst (notify (observer_callback Icon n) ms s))) = Some (kids @ [n])"
    by (simp add: notify_def)
qed

text \<open>
  Running category 2 again on the page it has annotated leaves two flame badges.
\<close>

theorem C2_icons_duplicate_counterexample:
  "length (badges_like (addIcon_element 2 flame_parameters) (annotated_once 2)) = 1
   \<and> length (badges_like (addIcon_element 2 flame_parameters) (annotated_twice 2)) = 2"
  by code_simp

theorem C2_marker_guard_witness:
  "top250_count (p_doc (annotated_once 1)) \<noteq> 0
   \<and> fst (fst (notify (observer_callback Crown (ScriptNode 1, createTop250Element 2))
                  [[ELEMENT_NODE]] (p_doc (annotated_once 1), True)))
       = p_doc (annotated_once 1)
   \<and> stat_list (p_doc (annotated_once 1))
       = Some [(HostNode 0, host_div), (HostNode 1, host_div), crown_node]
   \<and> crown_node \<in> set [(HostNode 0, host_div), (HostNode 1, host_div), crown_node]
   \<and> length (badges_like (createTop250Element 2) (annotated_twice 1)) = 1
   \<and> stat_list (p_doc (annotated_once 2))
       = Some [(HostNode 0, host_div), (HostNode 1, host_div), icon_badge]
   \<and> fst second_icon \<notin> set (map fst [(HostNode 0, host_div), (HostNode 1, host_div), icon_badge])
   \<and> 1 < div_count [(HostNode 0, host_div), (HostNode 1, host_div), icon_badge]
   \<and> ELEMENT_NODE \<in> set (concat [[ELEMENT_NODE]])
   \<and> stat_list (fst (fst (notify (observer_callback Icon second_icon) [[ELEMENT_NODE]]
                             (p_doc (annotated_once 2), True))))
       = Some [(HostNode 0, host_div), (HostNode 1, host_div), icon_badge, second_icon]"
proof -
  let ?K1 = "[(HostNode 0, host_div), (HostNode 1, host_div), crown_node]"
  let ?K2 = "[(HostNode 0, host_div), (HostNode 1, host_div), icon_badge]"
  have c1: "stat_list (p_doc (annotated_once 1)) = Some ?K1"
    by code_simp
  have c2: "(ScriptNode 0, createTop250Element 2) \<in> set ?K1"
    by (simp add: crown_node_def)
  have c3: "length (badges_like (createTop250Element 2) (annotated_twice 1)) = 1"
    by code_simp
  have i1: "stat_list (fst (p_doc (annotated_once 2), True)) = Some ?K2"
    by code_simp
  have i2: "fst second_icon \<notin> set (map fst ?K2)"
    by (simp add: second_icon_def icon_badge_def)
  have i3: "1 < div_count ?K2"
    by code_simp
  have i4: "snd (p_doc (annotated_once 2), True)" "ELEMENT_NODE \<in> set (concat [[ELEMENT_NODE]])"
    by simp_all
  note t1 = C2_marker_guard [of "(p_doc (annotated_once 1), True)"
      "(ScriptNode 1, createTop250Element 2)" "[[ELEMENT_NODE]]" 2 "p_doc (annotated_once 1)"
      ?K1 "ScriptNode 0"]
  note t2 = C2_marker_guard [of "(p_doc (annotated_once 2), True)" second_icon
      "[[ELEMENT_NODE]]" 2 "p_doc (annotated_once 2)" ?K2 "ScriptNode 0"]
  from t1 c1 c2 have g: "top250_count (p_doc (annotated_once 1)) \<noteq> 0"
    by blast
  with t1 have g2: "fst (fst (notify (observer_callback Crown (ScriptNode 1, createTop250Element 2))
                  [[ELEMENT_NODE]] (p_doc (annotated_once 1), True))) = p_doc (annotated_once 1)"
    by simp
  from t2 i1 i2 i3 i4
  have g3: "stat_list (fst (fst (notify (observer_callback Icon second_icon) [[ELEMENT_NODE]]
                             (p_doc (annotated_once 2), True)))) = Some (?K2 @ [second_icon])"
    by blast
  from g g2 g3 c1 c2 c3 i1 i2 i3 i4 show ?thesis
    by (simp add: crown_node_def)
qed

subsection \<open>The actor lookup\<close>

lemma actors_scan:
  "map (actor_name ns) rows = map Inr names \<Longrightarrow>
   find_js (getActors_callback ns) rows i acc = (acc @ names, Inr None)"
proof (induction rows arbitrary: names i acc)
  case Nil
  then show ?case by simp
next
  case (Cons x rows)
  then obtain n ns' where names: "names = n # ns'" and x: "actor_name ns x = Inr n"
    and rest: "map (actor_name ns) rows = map Inr ns'"
    by (cases names) auto
  from x have "getActors_callback ns x i acc = (acc @ [n], Inr False)"
    by (auto simp: actor_name_def getActors_callback_def split: sum.splits)
  with Cons.IH [OF rest, of "Suc i" "acc @ [n]"] names show ?case
    by simp
qed

lemma actors_scan_throws:
  "\<exists>item\<in>set rows. \<exists>e. actor_name ns item = Inl e \<Longrightarrow>
   \<exists>a e. find_js (getActors_callback ns) rows i acc = (a, Inl e)"
proof (induction rows arbitrary: i acc)
  case Nil
  then show ?case by simp
next
  case (Cons x rows)
  show ?case
  proof (cases "actor_name ns x")
    case (Inl e)
    then have "getActors_callback ns x i acc = (acc, Inl e)"
      by (auto simp: actor_name_def getActors_callback_def split: sum.splits)
    then show ?thesis by simp
  next
    case (Inr n)
    then have c: "getActors_callback ns x i acc = (acc @ [n], Inr False)"
      by (auto simp: actor_name_def getActors_callback_def split: sum.splits)
    from Inr Cons.prems have "\<exists>item\<in>set rows. \<exists>e. actor_name ns item = Inl e"
      by auto
    from Cons.IH [OF this, of "Suc i" "acc @ [n]"] c show ?thesis
      by simp
  qed
qed

lemma indexOf_ge: "- 1 \<le> indexOf xs x"
  by (induction xs) (auto simp: Let_def)

lemma indexOf_absent: "x \<notin> set xs \<Longrightarrow> indexOf xs x = - 1"
  by (induction xs) (auto simp: Let_def)

lemma indexOf_first:
  "p < length xs \<Longrightarrow> xs ! p = x \<Longrightarrow> \<forall>q<p. xs ! q \<noteq> x \<Longrightarrow> indexOf xs x = int p"
proof (induction xs arbitrary: p)
  case Nil
  then show ?case by simp
next
  case (Cons y ys)
  show ?case
  proof (cases p)
    case 0
    with Cons.prems show ?thesis by simp
  next
    case (Suc p')
    with Cons.prems have ne: "y \<noteq> x" by auto
    have "indexOf ys x = int p'"
      using Cons.prems Suc by (intro Cons.IH) auto
    with ne Suc show ?thesis by (simp add: Let_def)
  qed
qed

lemma actor_icon_element:
  "addActorIcon_element ranking actor_parameters =
     Element ''a''
       [(''href'', ''/el_duderinno/list/top-1000-actors-biggest-film/page/''
                   @ string_of_nat (pageOf ranking))]
       [(''fontSize'', ''.92307692rem'')]
       [Element ''img''
          [(''src'', ''https://raw.githubusercontent.com/afchatfield/lb-list-to-json/main/Icons/actor_red.png''),
           (''height'', ''12''), (''width'', ''12''), (''style'', ''margin-top: 1px;'')]
          [(''display'', ''inline''), (''marginBottom'', ''-1px''), (''marginLeft'', ''3px''),
           (''marginRight'', ''3px'')] [],
        TextNode (string_of_nat ranking)]"
  by (simp add: addActorIcon_element_def actor_parameters_def createElement_def
      createTextNode_def size_entries_def)

text \<open>
  Claim C6, as the code has it: the name index is built once per fetch, one name
  per row of the dataset, \<open>String(item.actor)\<close> taken as it is; when a row's name
  cannot be read or converted the chain rejects and no anchor is touched. Each
  cast anchor's text is normalized (NFC, here any function \<open>nfc\<close>) and compared
  by string equality with the names of the index. An anchor whose normalized text
  is not in the index is left as it is; one whose normalized text is first found
  at index \<open>p\<close> gets a new last child: an anchor to the page of rank \<open>p + 1\<close>
  of the actor list, holding the actor image and the text \<open>p + 1\<close>. For the rows
  \<open>{"actor":"Name A"}\<close>, \<open>{"actor":"Name B"}\<close> and a cast anchor \<open>Name B\<close> beside
  another anchor, the icon with rank 2 is appended to that anchor only.
\<close>

theorem C6_actor_lookup:
  "(map (actor_name num_str) rows = map Inr names \<longrightarrow>
      getActors nfc num_str cast (Body (JArr rows)) =
        \<lparr>anchors = map (getActors_each nfc names) cast, a_rejected = None\<rparr>)
   \<and> ((\<exists>item\<in>set rows. \<exists>e. actor_name num_str item = Inl e) \<longrightarrow>
        anchors (getActors nfc num_str cast (Body (JArr rows))) = cast
        \<and> a_rejected (getActors nfc num_str cast (Body (JArr rows))) \<noteq> None)
   \<and> (nfc (textContent el) \<notin> set names \<longrightarrow> getActors_each nfc names el = el)
   \<and> (p < length names \<and> names ! p = nfc (textContent (Element t as st cs))
        \<and> (\<forall>q<p. names ! q \<noteq> nfc (textContent (Element t as st cs))) \<longrightarrow>
      getActors_each nfc names (Element t as st cs) =
        Element t as st
          (cs @ [Element ''a''
                   [(''href'', ''/el_duderinno/list/top-1000-actors-biggest-film/page/''
                               @ string_of_nat ((p + 1) div 100 + 1))]
                   [(''fontSize'', ''.92307692rem'')]
                   [Element ''img''
                      [(''src'', ''https://raw.githubusercontent.com/afchatfield/lb-list-to-json/main/Icons/actor_red.png''),
                       (''height'', ''12''), (''width'', ''12''), (''style'', ''margin-top: 1px;'')]
                      [(''display'', ''inline''), (''marginBottom'', ''-1px''),
                       (''marginLeft'', ''3px''), (''marginRight'', ''3px'')] [],
                    TextNode (string_of_nat (p + 1))]]))
   \<and> (nfc ''Name B'' = ''Name B'' \<and> nfc (textContent other) \<notin> {''Name A'', ''Name B''} \<longrightarrow>
      anchors (getActors nfc num_str [other, cast_anchor ''Name B''] (Body (JArr actor_dataset)))
        = [other,
           Element ''a'' [(''class'', ''text-slug tooltip'')] []
             [TextNode ''Name B'',
              Element ''a''
                [(''href'', ''/el_duderinno/list/top-1000-actors-biggest-film/page/1'')]
                [(''fontSize'', ''.92307692rem'')]
                [Element ''img''
                   [(''src'', ''https://raw.githubusercontent.com/afchatfield/lb-list-to-json/main/Icons/actor_red.png''),
                    (''height'', ''12''), (''width'', ''12''), (''style'', ''margin-top: 1px;'')]
                   [(''display'', ''inline''), (''marginBottom'', ''-1px''),
                    (''marginLeft'', ''3px''), (''marginRight'', ''3px'')] [],
                 TextNode ''2'']]])"
proof (intro conjI impI)
  assume "map (actor_name num_str) rows = map Inr names"
  from actors_scan [OF this, of 0 "[]"]
  show "getActors nfc num_str cast (Body (JArr rows)) =
        \<lparr>anchors = map (getActors_each nfc names) cast, a_rejected = None\<rparr>"
    by (simp add: getActors_def)
next
  assume "\<exists>item\<in>set rows. \<exists>e. actor_name num_str item = Inl e"
  from actors_scan_throws [OF this, of 0 "[]"]
  obtain a e where "find_js (getActors_callback num_str) rows 0 [] = (a, Inl e)"
    by blast
  then show "anchors (getActors nfc num_str cast (Body (JArr rows))) = cast"
    and "a_rejected (getActors nfc num_str cast (Body (JArr rows))) \<noteq> None"
    by (simp_all add: getActors_def)
next
  assume "nfc (textContent el) \<notin> set names"
  then show "getActors_each nfc names el = el"
    by (simp add: getActors_each_def indexOf_absent)
next
  let ?el = "Element t as st cs"
  assume "p < length names \<and> names ! p = nfc (textContent ?el)
        \<and> (\<forall>q<p. names ! q \<noteq> nfc (textContent ?el))"
  then have "indexOf names (nfc (textContent ?el)) = int p"
    using indexOf_first [of p names "nfc (textContent ?el)"] by simp
  then have "getActors_each nfc names ?el = addActorIcon ?el (p + 1) actor_parameters"
    by (simp add: getActors_each_def)
  then show "getActors_each nfc names ?el =
        Element t as st
          (cs @ [Element ''a''
                   [(''href'', ''/el_duderinno/list/top-1000-actors-biggest-film/page/''
                               @ string_of_nat ((p + 1) div 100 + 1))]
                   [(''fontSize'', ''.92307692rem'')]
                   [Element ''img''
                      [(''src'', ''https://raw.githubusercontent.com/afchatfield/lb-list-to-json/main/Icons/actor_red.png''),
                       (''height'', ''12''), (''width'', ''12''), (''style'', ''margin-top: 1px;'')]
                      [(''display'', ''inline''), (''marginBottom'', ''-1px''),
                       (''marginLeft'', ''3px''), (''marginRight'', ''3px'')] [],
                    TextNode (string_of_nat (p + 1))]])"
    by (simp add: addActorIcon_def actor_icon_element pageOf_div)
next
  assume a: "nfc ''Name B'' = ''Name B'' \<and> nfc (textContent other) \<notin> {''Name A'', ''Name B''}"
  have n: "map (actor_name num_str) actor_dataset = map Inr [''Name A'', ''Name B'']"
    by (simp add: actor_dataset_def actor_name_def to_String_def)
  have g: "anchors (getActors nfc num_str [other, cast_anchor ''Name B''] (Body (JArr actor_dataset)))
      = map (getActors_each nfc [''Name A'', ''Name B'']) [other, cast_anchor ''Name B'']"
    using actors_scan [OF n, of 0 "[]"] by (simp add: getActors_def)
  from a have "nfc (textContent other) \<notin> set [''Name A'', ''Name B'']"
    by simp
  then have "indexOf [''Name A'', ''Name B''] (nfc (textContent other)) = - 1"
    by (rule indexOf_absent)
  then have o: "getActors_each nfc [''Name A'', ''Name B''] other = other"
    unfolding getActors_each_def Let_def by (simp only:) simp
  have t: "textContent (cast_anchor ''Name B'') = ''Name B''"
    by (simp add: cast_anchor_def)
  have p1: "string_of_nat (pageOf 2) = ''1''" and r2: "string_of_nat 2 = ''2''"
    by code_simp+
  have b: "getActors_each nfc [''Name A'', ''Name B''] (cast_anchor ''Name B'')
      = addActorIcon (cast_anchor ''Name B'') 2 actor_parameters"
    using a by (simp add: getActors_each_def t numeral_2_eq_2)
  show "anchors (getActors nfc num_str [other, cast_anchor ''Name B''] (Body (JArr actor_dataset)))
        = [other,
           Element ''a'' [(''class'', ''text-slug tooltip'')] []
             [TextNode ''Name B'',
              Element ''a''
                [(''href'', ''/el_duderinno/list/top-1000-actors-biggest-film/page/1'')]
                [(''fontSize'', ''.92307692rem'')]
                [Element ''img''
                   [(''src'', ''https://raw.githubusercontent.com/afchatfield/lb-list-to-json/main/Icons/actor_red.png''),
                    (''height'', ''12''), (''width'', ''12''), (''style'', ''margin-top: 1px;'')]
                   [(''display'', ''inline''), (''marginBottom'', ''-1px''),
                    (''marginLeft'', ''3px''), (''marginRight'', ''3px'')] [],
                 TextNode ''2'']]]"
    by (simp add: g o b addActorIcon_def actor_icon_element p1 r2) (simp add: cast_anchor_def)
qed

theorem C6_actor_lookup_witness:
  "map (actor_name string_of_int) actor_dataset = map Inr [''Name A'', ''Name B'']
   \<and> getActors (\<lambda>s. s) string_of_int [cast_anchor ''Name C'', cast_anchor ''Name B'']
         (Body (JArr actor_dataset)) =
        \<lparr>anchors = map (getActors_each (\<lambda>s. s) [''Name A'', ''Name B''])
                     [cast_anchor ''Name C'', cast_anchor ''Name B''],
         a_rejected = None\<rparr>
   \<and> unprintable_rows ! 1 \<in> set unprintable_rows
   \<and> actor_name string_of_int (unprintable_rows ! 1) = Inl TypeError
   \<and> anchors (getActors (\<lambda>s. s) string_of_int [cast_anchor ''Name C'', cast_anchor ''Name B'']
         (Body (JArr unprintable_rows))) = [cast_anchor ''Name C'', cast_anchor ''Name B'']
   \<and> a_rejected (getActors (\<lambda>s. s) string_of_int [cast_anchor ''Name C'', cast_anchor ''Name B'']
         (Body (JArr unprintable_rows))) \<noteq> None
   \<and> textContent (cast_anchor ''Name C'') \<notin> set [''Name A'', ''Name B'']
   \<and> getActors_each (\<lambda>s. s) [''Name A'', ''Name B''] (cast_anchor ''Name C'') = cast_anchor ''Name C''
   \<and> (1::nat) < length [''Name A'', ''Name B'']
   \<and> [''Name A'', ''Name B''] ! 1 = textContent (Element ''a'' [(''class'', ''text-slug tooltip'')] [] [TextNode ''Name B''])
   \<and> [''Name A'', ''Name B''] ! 0 \<noteq> textContent (Element ''a'' [(''class'', ''text-slug tooltip'')] [] [TextNode ''Name B''])
   \<and> getActors_each (\<lambda>s. s) [''Name A'', ''Name B''] (Element ''a'' [(''class'', ''text-slug tooltip'')] [] [TextNode ''Name B''])
       = Element ''a'' [(''class'', ''text-slug tooltip'')] []
           ([TextNode ''Name B''] @ [Element ''a''
                [(''href'', ''/el_duderinno/list/top-1000-actors-biggest-film/page/'' @ string_of_nat ((1 + 1) div 100 + 1))]
                [(''fontSize'', ''.92307692rem'')]
                [Element ''img''
                   [(''src'', ''https://raw.githubusercontent.com/afchatfield/lb-list-to-json/main/Icons/actor_red.png''),
                    (''height'', ''12''), (''width'', ''12''), (''style'', ''margin-top: 1px;'')]
                   [(''display'', ''inline''), (''marginBottom'', ''-1px''),
                    (''marginLeft'', ''3px''), (''marginRight'', ''3px'')] [],
                 TextNode (string_of_nat (1 + 1))]])
   \<and> anchors (getActors (\<lambda>s. s) string_of_int [cast_anchor ''Name C'', cast_anchor ''Name B'']
         (Body (JArr actor_dataset)))
       = [cast_anchor ''Name C'',
          Element ''a'' [(''class'', ''text-slug tooltip'')] []
            [TextNode ''Name B'', Element ''a''
                [(''href'', ''/el_duderinno/list/top-1000-actors-biggest-film/page/1'')]
                [(''fontSize'', ''.92307692rem'')]
                [Element ''img''
                   [(''src'', ''https://raw.githubusercontent.com/afchatfield/lb-list-to-json/main/Icons/actor_red.png''),
                    (''height'', ''12''), (''width'', ''12''), (''style'', ''margin-top: 1px;'')]
                   [(''display'', ''inline''), (''marginBottom'', ''-1px''),
                    (''marginLeft'', ''3px''), (''marginRight'', ''3px'')] [],
                 TextNode ''2'']]]"
proof -
  let ?N = "[''Name A'', ''Name B'']"
  let ?cast = "[cast_anchor ''Name C'', cast_anchor ''Name B'']"
  let ?B = "Element ''a'' [(''class'', ''text-slug tooltip'')] [] [TextNode ''Name B'']"
  have h1: "map (actor_name string_of_int) actor_dataset = map Inr ?N"
    by (simp add: actor_dataset_def actor_name_def to_String_def)
  have h2: "unprintable_rows ! 1 \<in> set unprintable_rows"
    "actor_name string_of_int (unprintable_rows ! 1) = Inl TypeError"
    by (simp_all add: unprintable_rows_def actor_name_def to_String_def)
  then have h2': "\<exists>item\<in>set unprintable_rows. \<exists>e. actor_name string_of_int item = Inl e"
    by blast
  have h3: "(\<lambda>s. s) (textContent (cast_anchor ''Name C'')) \<notin> set ?N"
    by (simp add: cast_anchor_def)
  have h4: "(1::nat) < length ?N" "?N ! 1 = (\<lambda>s. s) (textContent ?B)"
    "?N ! 0 \<noteq> (\<lambda>s. s) (textContent ?B)"
    by simp_all
  then have h4': "\<forall>q<1. ?N ! q \<noteq> (\<lambda>s. s) (textContent ?B)"
    by simp
  have h5: "(\<lambda>s. s) ''Name B'' = ''Name B''"
    "(\<lambda>s. s) (textContent (cast_anchor ''Name C'')) \<notin> {''Name A'', ''Name B''}"
    by (simp_all add: cast_anchor_def)
  note t1 = C6_actor_lookup [where num_str = string_of_int and rows = actor_dataset and names = ?N
      and nfc = "\<lambda>s. s" and cast = ?cast and el = "cast_anchor ''Name C''" and p = 1
      and t = "''a''" and as = "[(''class'', ''text-slug tooltip'')]" and st = "[]"
      and cs = "[TextNode ''Name B'']" and other = "cast_anchor ''Name C''"]
  note t2 = C6_actor_lookup [where num_str = string_of_int and rows = unprintable_rows and names = ?N
      and nfc = "\<lambda>s. s" and cast = ?cast and el = "cast_anchor ''Name C''" and p = 1
      and t = "''a''" and as = "[(''class'', ''text-slug tooltip'')]" and st = "[]"
      and cs = "[TextNode ''Name B'']" and other = "cast_anchor ''Name C''"]
  from t1 h1 have g1: "getActors (\<lambda>s. s) string_of_int ?cast (Body (JArr actor_dataset)) =
        \<lparr>anchors = map (getActors_each (\<lambda>s. s) ?N) ?cast, a_rejected = None\<rparr>"
    by blast
  from t2 h2' have g2: "anchors (getActors (\<lambda>s. s) string_of_int ?cast (Body (JArr unprintable_rows))) = ?cast"
    "a_rejected (getActors (\<lambda>s. s) string_of_int ?cast (Body (JArr unprintable_rows))) \<noteq> None"
    by blast+
  from t1 h3 have g3: "getActors_each (\<lambda>s. s) ?N (cast_anchor ''Name C'') = cast_anchor ''Name C''"
    by blast
  from t1 h4(1,2) h4' have g4: "getActors_each (\<lambda>s. s) ?N ?B
       = Element ''a'' [(''class'', ''text-slug tooltip'')] []
           ([TextNode ''Name B''] @ [Element ''a''
                [(''href'', ''/el_duderinno/list/top-1000-actors-biggest-film/page/'' @ string_of_nat ((1 + 1) div 100 + 1))]
                [(''fontSize'', ''.92307692rem'')]
                [Element ''img''
                   [(''src'', ''https://raw.githubusercontent.com/afchatfield/lb-list-to-json/main/Icons/actor_red.png''),
                    (''height'', ''12''), (''width'', ''12''), (''style'', ''margin-top: 1px;'')]
                   [(''display'', ''inline''), (''marginBottom'', ''-1px''),
                    (''marginLeft'', ''3px''), (''marginRight'', ''3px'')] [],
                 TextNode (string_of_nat (1 + 1))]])"
    by blast
  from t1 h5 have g5: "anchors (getActors (\<lambda>s. s) string_of_int ?cast (Body (JArr actor_dataset)))
       = [cast_anchor ''Name C'',
          Element ''a'' [(''class'', ''text-slug tooltip'')] []
            [TextNode ''Name B'', Element ''a''
                [(''href'', ''/el_duderinno/list/top-1000-actors-biggest-film/page/1'')]
                [(''fontSize'', ''.92307692rem'')]
                [Element ''img''
                   [(''src'', ''https://raw.githubusercontent.com/afchatfield/lb-list-to-json/main/Icons/actor_red.png''),
                    (''height'', ''12''), (''width'', ''12''), (''style'', ''margin-top: 1px;'')]
                   [(''display'', ''inline''), (''marginBottom'', ''-1px''),
                    (''marginLeft'', ''3px''), (''marginRight'', ''3px'')] [],
                 TextNode ''2'']]]"
    by blast
  from h1 h2 h3 h4 g1 g2 g3 g4 g5 show ?thesis
    by simp
qed

text \<open>
  On the dataset of the bare strings \<open>["Name A","Name B"]\<close> every name of the
  index is \<open>undefined\<close>, and the cast anchor \<open>Name B\<close> gets no icon.
\<close>

theorem C6_bare_strings_counterexample:
  "fst (find_js (getActors_callback string_of_int) bare_names 0 []) = [''undefined'', ''undefined'']
   \<and> getActors (\<lambda>s. s) string_of_int [cast_anchor ''Name B''] (Body (JArr bare_names))
       = \<lparr>anchors = [cast_anchor ''Name B''], a_rejected = None\<rparr>"
  by code_simp

subsection \<open>The identifier read\<close>

lemma getData_cond_NaN: "getData_cond item NaN \<noteq> Inr True"
  by (cases item) (simp_all add: getData_cond_def)

lemma find_js_NaN: "fst (find_js (getData_callback type NaN) xs i cs) = cs"
proof (induction xs arbitrary: i cs)
  case Nil
  show ?case by simp
next
  case (Cons x xs)
  show ?case
  proof (cases "getData_cond x NaN")
    case (Inl e)
    then show ?thesis by (simp add: getData_callback_def)
  next
    case (Inr b)
    with getData_cond_NaN [of x] have "\<not> b" by auto
    with Inr Cons.IH show ?thesis by (simp add: getData_callback_def)
  qed
qed

lemma getData_NaN: "calls (getData type NaN r) = []"
proof (cases r)
  case (Body out)
  show ?thesis
  proof (cases out)
    case (JArr xs)
    with Body find_js_NaN [of type xs 0 "[]"] show ?thesis
      by (cases "find_js (getData_callback type NaN) xs 0 []")
         (auto simp: getData_def split: sum.splits)
  qed (simp_all add: Body getData_def)
qed (simp_all add: getData_def)

lemma parseInt_null: "parseInt ''null'' = NaN"
  by code_simp

text \<open>
  Claim C7, as the code has it: when the page has no \<open>film-poster\<close> element (or
  it has no parent) the handler throws a TypeError at its first statement, before
  any fetch; this is the only way the handler is left early. When only the
  attribute is absent the identifier is \<open>NaN\<close> and the handler starts all 29
  fetches; no dataset entry matches \<open>NaN\<close>, so no film badge call is made.
\<close>

theorem C7_identifier_read:
  "on_load NoPoster = Inl TypeError \<and> on_load OrphanPoster = Inl TypeError
   \<and> on_load (PosterIn None) = Inr (requests NaN) \<and> length (requests NaN) = 29
   \<and> calls (getData type NaN r) = []
   \<and> ((\<exists>e. on_load p = Inl e) \<longleftrightarrow> p = NoPoster \<or> p = OrphanPoster)"
proof -
  have "(\<exists>e. on_load p = Inl e) \<longleftrightarrow> p = NoPoster \<or> p = OrphanPoster"
    by (cases p rule: read_id.cases) (simp_all add: on_load_def)
  then show ?thesis
    by (simp add: on_load_def parseInt_null getData_NaN) (simp add: requests_def)
qed

theorem C7_identifier_read_witness:
  "on_load NoPoster = Inl TypeError
   \<and> on_load (PosterIn None) = Inr (requests NaN)
   \<and> calls (getData 2 NaN (Body (JArr scenario_dataset))) = []
   \<and> (\<exists>e. on_load NoPoster = Inl e)"
  using C7_identifier_read [of 2 "Body (JArr scenario_dataset)" NoPoster] by simp

text \<open>
  The absent element is an uncaught TypeError, and with the attribute absent the
  pass goes on: the 29 fetches are started and the actor icon is still appended.
\<close>

theorem C7_not_silent_counterexample:
  "on_load NoPoster = Inl TypeError
   \<and> on_load (PosterIn None) = Inr (requests NaN)
   \<and> length (requests NaN) = 29
   \<and> r_cast (fold (settle (\<lambda>s. s) string_of_int actor_net) (requests NaN) fresh_run)
       = [addActorIcon (cast_anchor ''Name B'') 2 actor_parameters]
   \<and> r_cast (fold (settle (\<lambda>s. s) string_of_int actor_net) (requests NaN) fresh_run) \<noteq> r_cast fresh_run"
  by code_simp

subsection \<open>Failures of a fetch\<close>

lemma collect_thrown:
  "map (map_sum (\<lambda>e. e) (\<lambda>x. ())) rs = map (map_sum (\<lambda>e. e) (\<lambda>x. ())) rs' \<Longrightarrow>
   map_sum (\<lambda>e. e) (\<lambda>x. ()) (collect rs) = map_sum (\<lambda>e. e) (\<lambda>x. ()) (collect rs')"
proof (induction rs arbitrary: rs')
  case Nil
  then show ?case by simp
next
  case (Cons r rs)
  then obtain r' rs'' where rs': "rs' = r' # rs''" by (cases rs') auto
  with Cons.prems have h: "map_sum (\<lambda>e. e) (\<lambda>x. ()) r = map_sum (\<lambda>e. e) (\<lambda>x. ()) r'"
    and t: "map (map_sum (\<lambda>e. e) (\<lambda>x. ())) rs = map (map_sum (\<lambda>e. e) (\<lambda>x. ())) rs''"
    by auto
  from Cons.IH [OF t] h show ?case
    unfolding rs'
    by (cases r; cases r'; cases "collect rs"; cases "collect rs''") auto
qed

lemma json_to_String_thrown:
  "map_sum (\<lambda>e. e) (\<lambda>x. ()) (json_to_String ns v) = map_sum (\<lambda>e. e) (\<lambda>x. ()) (json_to_String ns' v)"
proof (induction v)
  case (JArr xs)
  let ?f = "\<lambda>ns x. if x = JNull then Inr [] else json_to_String ns x"
  have "map (map_sum (\<lambda>e. e) (\<lambda>x. ())) (map (?f ns) xs) = map (map_sum (\<lambda>e. e) (\<lambda>x. ())) (map (?f ns') xs)"
    using JArr by auto
  from collect_thrown [OF this] show ?case
    by (cases "collect (map (?f ns) xs)"; cases "collect (map (?f ns') xs)") auto
qed simp_all

lemma callback_thrown:
  "map_sum (\<lambda>e. e) (\<lambda>x. ()) (snd (getActors_callback ns item i acc))
     = map_sum (\<lambda>e. e) (\<lambda>x. ()) (snd (getActors_callback ns' item i' acc'))"
proof (cases "get_prop item ''actor''")
  case (Inl e)
  then show ?thesis by (simp add: getActors_callback_def)
next
  case (Inr v)
  have "map_sum (\<lambda>e. e) (\<lambda>x. ()) (to_String ns v) = map_sum (\<lambda>e. e) (\<lambda>x. ()) (to_String ns' v)"
    using json_to_String_thrown [of ns _ ns'] by (cases v) (simp_all add: to_String_def)
  with Inr show ?thesis
    by (cases "to_String ns v"; cases "to_String ns' v") (auto simp: getActors_callback_def)
qed

lemma callback_never_true: "snd (getActors_callback ns item i acc) \<noteq> Inr True"
  by (simp add: getActors_callback_def split: sum.splits)

lemma actors_scan_thrown:
  "map_sum (\<lambda>e. e) (\<lambda>x. ()) (snd (find_js (getActors_callback ns) rows i acc))
     = map_sum (\<lambda>e. e) (\<lambda>x. ()) (snd (find_js (getActors_callback ns') rows i' acc'))"
proof (induction rows arbitrary: i acc i' acc')
  case Nil
  show ?case by simp
next
  case (Cons x rows)
  obtain a r where c: "getActors_callback ns x i acc = (a, r)"
    by (cases "getActors_callback ns x i acc")
  obtain a' r' where c': "getActors_callback ns' x i' acc' = (a', r')"
    by (cases "getActors_callback ns' x i' acc'")
  have e: "map_sum (\<lambda>e. e) (\<lambda>x. ()) r = map_sum (\<lambda>e. e) (\<lambda>x. ()) r'"
    using callback_thrown [of ns x i acc ns' i' acc'] c c' by simp
  have nt: "r \<noteq> Inr True" "r' \<noteq> Inr True"
    using callback_never_true [of ns x i acc] callback_never_true [of ns' x i' acc'] c c' by simp_all
  show ?case
    using e nt c c' Cons.IH [of "Suc i" a "Suc i'" a']
    by (cases r; cases r') auto
qed

lemma getActors_rejected_indep:
  "a_rejected (getActors nfc ns cast r) = a_rejected (getActors nfc' ns' cast' r)"
proof (cases r)
  case (Body out)
  show ?thesis
  proof (cases out)
    case (JArr xs)
    obtain a e where f: "find_js (getActors_callback ns) xs 0 [] = (a, e)"
      by (cases "find_js (getActors_callback ns) xs 0 []")
    obtain a' e' where f': "find_js (getActors_callback ns') xs 0 [] = (a', e')"
      by (cases "find_js (getActors_callback ns') xs 0 []")
    have "map_sum (\<lambda>e. e) (\<lambda>x. ()) e = map_sum (\<lambda>e. e) (\<lambda>x. ()) e'"
      using actors_scan_thrown [of ns xs 0 "[]" ns' 0 "[]"] f f' by simp
    then show ?thesis
      using Body JArr f f' by (cases e; cases e') (auto simp: getActors_def)
  qed (simp_all add: Body getActors_def)
qed (simp_all add: getActors_def)

lemma settle_page:
  "r_page (settle nfc num_str net q st) = fold apply_call (request_calls net q) (r_page st)"
  by (cases q) (simp_all add: settle_def request_calls_def Let_def)

lemma settle_unhandled:
  "r_unhandled (settle nfc num_str net q st) = r_unhandled st @ request_rejection net q"
  using getActors_rejected_indep [of nfc num_str "r_cast st" _ "\<lambda>s. s" string_of_int "[]"]
  by (cases q) (simp_all add: settle_def request_rejection_def Let_def)

lemma run_page:
  "r_page (fold (settle nfc num_str net) qs st)
     = fold apply_call (concat (map (request_calls net) qs)) (r_page st)"
  by (induction qs arbitrary: st) (simp_all add: settle_page)

lemma run_unhandled:
  "r_unhandled (fold (settle nfc num_str net) qs st)
     = r_unhandled st @ concat (map (request_rejection net) qs)"
  by (induction qs arbitrary: st) (simp_all add: settle_unhandled)

lemma request_calls_other:
  "link_of q \<noteq> l \<Longrightarrow> request_calls (net(l := r)) q = request_calls net q"
  by (cases q) (simp_all add: request_calls_def)

text \<open>
  Claim C4, as the code has it: a chain whose fetch rejects or whose body is not
  JSON makes no badge call and its last promise rejects; nothing handles the
  rejection. The page after any run is the page after the calls of every request,
  each computed from the response to its own link, and the unhandled rejections
  are those of the requests that failed; so replacing the response to one link, by
  a failure or by anything else, changes the calls of no request for another link.
\<close>

theorem C4_failure_isolated:
  "(r = FetchRejected \<or> r = BodyNotJson \<longrightarrow>
      calls (getData type id' r) = [] \<and> rejected (getData type id' r) \<noteq> None)
   \<and> r_page (fold (settle nfc num_str net) qs st)
       = fold apply_call (concat (map (request_calls net) qs)) (r_page st)
   \<and> r_unhandled (fold (settle nfc num_str net) qs st)
       = r_unhandled st @ concat (map (request_rejection net) qs)
   \<and> (\<forall>q\<in>set qs. link_of q \<noteq> l \<longrightarrow> request_calls (net(l := r)) q = request_calls net q)"
proof (intro conjI impI ballI)
  assume "r = FetchRejected \<or> r = BodyNotJson"
  then show "calls (getData type id' r) = []" and "rejected (getData type id' r) \<noteq> None"
    by (auto simp: getData_def)
next
  show "r_page (fold (settle nfc num_str net) qs st)
       = fold apply_call (concat (map (request_calls net) qs)) (r_page st)"
    by (rule run_page)
next
  show "r_unhandled (fold (settle nfc num_str net) qs st)
       = r_unhandled st @ concat (map (request_rejection net) qs)"
    by (rule run_unhandled)
next
  fix q assume "link_of q \<noteq> l"
  then show "request_calls (net(l := r)) q = request_calls net q"
    by (rule request_calls_other)
qed

text \<open>
  The failure does surface: the rejection of the failing chain is left unhandled.
\<close>

theorem C4_unhandled_rejection_counterexample:
  "rejected (getData 2 (Num 20) FetchRejected) = Some FetchFailed
   \<and> rejected (getData 2 (Num 20) BodyNotJson) = Some SyntaxError
   \<and> r_unhandled (fold (settle (\<lambda>s. s) string_of_int rejecting_net) three_requests fresh_run)
       = [(GetData 2 (Num 20) flame_link, FetchFailed)]"
  by code_simp

theorem C4_failure_isolated_witness:
  "calls (getData 2 (Num 20) FetchRejected) = []
   \<and> rejected (getData 2 (Num 20) FetchRejected) \<noteq> None
   \<and> three_requests ! 0 \<in> set three_requests
   \<and> link_of (three_requests ! 0) \<noteq> flame_link
   \<and> request_calls (film_net(flame_link := FetchRejected)) (three_requests ! 0)
       = request_calls film_net (three_requests ! 0)
   \<and> request_calls film_net (three_requests ! 0) = [AddCrown 2]
   \<and> length (badges_like (createTop250Element 2) after_rejection) = 1
   \<and> map_option (\<lambda>p. length (badges_like (addIcon_element 2 p) after_rejection)) (parameters_of 3)
       = Some 1
   \<and> map_option (\<lambda>p. length (badges_like (addIcon_element 2 p) after_rejection)) (parameters_of 2)
       = Some 0"
proof -
  have m: "three_requests ! 0 \<in> set three_requests"
    by (simp add: three_requests_def requests_def)
  have l: "link_of (three_requests ! 0) \<noteq> flame_link"
    by (simp add: three_requests_def requests_def flame_link_def)
  have c: "request_calls film_net (three_requests ! 0) = [AddCrown 2]"
    by code_simp
  have b: "length (badges_like (createTop250Element 2) after_rejection) = 1"
    "map_option (\<lambda>p. length (badges_like (addIcon_element 2 p) after_rejection)) (parameters_of 3)
       = Some 1"
    "map_option (\<lambda>p. length (badges_like (addIcon_element 2 p) after_rejection)) (parameters_of 2)
       = Some 0"
    by code_simp+
  from C4_failure_isolated [of FetchRejected 2 "Num 20" "\<lambda>s. s" string_of_int film_net
      three_requests fresh_run flame_link] m l
  have "calls (getData 2 (Num 20) FetchRejected) = []
    \<and> rejected (getData 2 (Num 20) FetchRejected) \<noteq> None
    \<and> request_calls (film_net(flame_link := FetchRejected)) (three_requests ! 0)
       = request_calls film_net (three_requests ! 0)"
    by blast
  with m l c b show ?thesis
    by simp
qed

end
